theory Spec2Isabelle
  imports Complex_Main "HOL-Library.Word" "HOL-Library.AList" "HOL-Library.Multiset"
    "HOL-Library.Log_Nat"
begin

section \<open>Errors, time and the outside world\<close>

text \<open>
  The driver talks to a cluster over HTTP and through the gorqlite client library. Everything
  those collaborators answer is supplied by a value of type \<open>world\<close>; every call into
  the world is appended to a trace, and the answer to a call may depend on the number of
  calls made before it (the length of the trace), so a node may fail now and answer later.
\<close>

datatype error =
    External string
  | StatusRequestFailed int
  | InvalidClusterInfo
  | NoLeaderFound
  | DiscoverFailed "error option"
  | ConnectionClosed
  | ConnectFailed error
  | NoNodesAvailable
  | MaxRetryExceeded
  | DsnEmpty
  | InvalidDsnFormat
  | NoNodesSpecified
  | NoValidNodes
  | EOF
  | ScanBeforeNext
  | ScanColumnCount nat nat
  | ScanUnknownDestination nat
  | RuntimePanic

text \<open>
  \<open>External\<close> is an error value produced outside this package (net/http, encoding/json,
  gorqlite). The other constructors are the package's own errors:
  \<open>DiscoverFailed e\<close> is \<^verbatim>\<open>fmt.Errorf("failed to discover leader from any node: %w", e)\<close>,
  \<open>ConnectFailed e\<close> is \<^verbatim>\<open>fmt.Errorf("failed to connect to any node: %w", e)\<close>,
  \<open>ConnectionClosed\<close> is \<^verbatim>\<open>errors.New("connection is closed")\<close>,
  \<open>MaxRetryExceeded\<close> is \<^verbatim>\<open>errors.New("max retry attempts exceeded")\<close>, and so on;
  \<open>EOF\<close> is \<^verbatim>\<open>io.EOF\<close>. The three \<open>Scan\<close> errors are those of gorqlite's
  \<^verbatim>\<open>QueryResult.Scan\<close>, with the numbers their messages print: a scan before the first
  \<^verbatim>\<open>Next\<close>, a number of destinations that is not the number of columns, and
  \<^verbatim>\<open>unknown destination type (%T) to scan into in variable #%d\<close>. \<open>RuntimePanic\<close>
  stands for an index out of range, which no call below reaches.
\<close>

text \<open>
  A \<^verbatim>\<open>time.Time\<close> is an instant in nanoseconds counted from the zero Time, so that
  \<^verbatim>\<open>time.Time{}\<close> is 0. A \<^verbatim>\<open>time.Duration\<close> is a 64-bit count of nanoseconds;
  \<^verbatim>\<open>Time.Sub\<close> saturates at its bounds.
\<close>

type_synonym Time = int
type_synonym Duration = int

definition Second :: Duration where
  "Second = 1000000000"

definition maxDuration :: Duration where
  "maxDuration = 2 ^ 63 - 1"

definition minDuration :: Duration where
  "minDuration = - (2 ^ 63)"

definition Sub :: "Time \<Rightarrow> Time \<Rightarrow> Duration" where
  "Sub t u = (if t - u > maxDuration then maxDuration
              else if t - u < minDuration then minDuration else t - u)"

section \<open>Go values\<close>

text \<open>
  A value of type \<^verbatim>\<open>interface{}\<close> is tagged with its dynamic type. The platform is fixed
  to amd64: \<^verbatim>\<open>int\<close> and \<^verbatim>\<open>uint\<close> are 64 bits wide. A floating-point number is written
  as the number it denotes, so the conversion \<^verbatim>\<open>float64(v)\<close> of a \<^verbatim>\<open>float32\<close>, which is
  exact, keeps it as it is.
\<close>

datatype go_float = Finite rat | Infinite bool | NaN

text \<open>
  A value whose dynamic type is none of the cases of the type switch in \<^verbatim>\<open>convertValue\<close>,
  as package reflect sees it: its kind with its payload. \<open>ROther s\<close> is a value of any
  other kind, with \<open>s\<close> the text \<^verbatim>\<open>v.String()\<close> gives for it.
\<close>

datatype reflected =
    RString string
  | RInt "64 word"
  | RUint "64 word"
  | RFloat go_float
  | RBool bool
  | ROther string

datatype go_value =
    VNil
  | VBool bool
  | VInt "64 word"
  | VInt8 "8 word"
  | VInt16 "16 word"
  | VInt32 "32 word"
  | VInt64 "64 word"
  | VUint "64 word"
  | VUint8 "8 word"
  | VUint16 "16 word"
  | VUint32 "32 word"
  | VUint64 "64 word"
  | VFloat32 go_float
  | VFloat64 go_float
  | VString string
  | VBytes "8 word list"
  | VTime Time
  | VOther reflected

text \<open>
  The result of a query as gorqlite holds it: the column names, the rows and the cursor.
\<close>

record QueryResult =
  columns :: "string list"
  rows :: "go_value list list"
  rowNumber :: int

text \<open>The document a status request decodes to (encoding/json into \<^verbatim>\<open>interface{}\<close>).\<close>

datatype json =
    JNull
  | JBool bool
  | JNumber rat
  | JString string
  | JArray "json list"
  | JObject "(string \<times> json) list"

datatype event =
    ClockRead
  | StatusRequest string
  | OpenClient string
  | SelectOne string
  | CloseClient string
  | WriteOne string string
  | QueryOne string string

type_synonym trace = "event list"

text \<open>
  A gorqlite connection handle: the node it is bound to and the consistency level set on it.
\<close>

record Connection =
  node :: string
  level :: string

record world =
  clock :: "nat \<Rightarrow> Time"
  http_get :: "nat \<Rightarrow> string \<Rightarrow> error + (int \<times> (error + (string \<times> json) list))"
  map_order :: "string list \<Rightarrow> string list"
  gorqlite_open :: "nat \<Rightarrow> string \<Rightarrow> error option"
  select_one :: "nat \<Rightarrow> Connection \<Rightarrow> error option"
  write_one ::
    "nat \<Rightarrow> Connection \<Rightarrow> string \<Rightarrow> go_value list \<Rightarrow> error + (64 word \<times> 64 word)"
  query_one :: "nat \<Rightarrow> Connection \<Rightarrow> string \<Rightarrow> go_value list \<Rightarrow> error + QueryResult"

text \<open>
  \<open>clock w n\<close> is what \<^verbatim>\<open>time.Now()\<close> reads at step \<open>n\<close>.
  \<open>http_get w n url\<close> is the outcome of the GET request at step \<open>n\<close>: an error of
  \<^verbatim>\<open>http.NewRequestWithContext\<close> or of \<^verbatim>\<open>client.Do\<close>, or the status code with the
  result of decoding the body into a map.
  \<open>map_order w ks\<close> is the order in which \<^verbatim>\<open>range\<close> visits a map whose keys were inserted
  in the order \<open>ks\<close>; Go leaves that order unspecified.
  \<open>gorqlite_open\<close>, \<open>select_one\<close>, \<open>write_one\<close> and \<open>query_one\<close> are the outcomes of
  \<^verbatim>\<open>gorqlite.Open\<close>, of the liveness query \<^verbatim>\<open>SELECT 1\<close>, of
  \<^verbatim>\<open>WriteOneParameterized\<close> (last insert id and rows affected) and of
  \<^verbatim>\<open>QueryOneParameterized\<close>.
\<close>

definition Now :: "world \<Rightarrow> trace \<Rightarrow> Time \<times> trace" where
  "Now w tr = (clock w (length tr), tr @ [ClockRead])"

definition Since :: "world \<Rightarrow> trace \<Rightarrow> Time \<Rightarrow> Duration \<times> trace" where
  "Since w tr t = (case Now w tr of (n, tr') \<Rightarrow> (Sub n t, tr'))"

section \<open>leader.go: the cluster manager\<close>

record ClusterManager =
  nodes :: "string list"
  leader :: string
  peers :: "string list"
  lastUpdate :: Time
  updateInterval :: Duration

definition NewClusterManager :: "string list \<Rightarrow> ClusterManager" where
  "NewClusterManager ns =
     \<lparr>nodes = ns, leader = [], peers = [], lastUpdate = 0, updateInterval = 30 * Second\<rparr>"

text \<open>
  The type assertions of \<^verbatim>\<open>queryNodeStatus\<close>: \<^verbatim>\<open>x.(map[string]interface{})\<close>,
  \<^verbatim>\<open>x.(string)\<close> and \<^verbatim>\<open>x.([]interface{})\<close> on the value stored under a key, where a
  missing key yields nil and every assertion on nil fails.
\<close>

definition as_object :: "json option \<Rightarrow> (string \<times> json) list option" where
  "as_object x = (case x of Some (JObject kvs) \<Rightarrow> Some kvs | _ \<Rightarrow> None)"

definition as_string :: "json option \<Rightarrow> string option" where
  "as_string x = (case x of Some (JString s) \<Rightarrow> Some s | _ \<Rightarrow> None)"

definition as_array :: "json option \<Rightarrow> json list option" where
  "as_array x = (case x of Some (JArray xs) \<Rightarrow> Some xs | _ \<Rightarrow> None)"

fun peer_strings :: "json list \<Rightarrow> string list" where
  "peer_strings [] = []"
| "peer_strings (p # ps) =
     (case as_string (Some p) of
        Some peerStr \<Rightarrow> peerStr # peer_strings ps
      | None \<Rightarrow> peer_strings ps)"

definition extract_status :: "(string \<times> json) list \<Rightarrow> error + (string \<times> string list)" where
  "extract_status status =
     (case as_object (map_of status ''cluster'') of
        None \<Rightarrow> Inl InvalidClusterInfo
      | Some cluster \<Rightarrow>
          (let ldr = (case as_string (map_of cluster ''leader'') of Some s \<Rightarrow> s | None \<Rightarrow> [])
           in if ldr = [] then Inl NoLeaderFound
              else Inr (ldr,
                        (case as_array (map_of cluster ''peers'') of
                           Some peerList \<Rightarrow> peer_strings peerList
                         | None \<Rightarrow> []))))"

definition queryNodeStatus ::
  "world \<Rightarrow> trace \<Rightarrow> string \<Rightarrow> (error + (string \<times> string list)) \<times> trace" where
  "queryNodeStatus w tr nd =
     (let statusURL = nd @ ''/status''; tr1 = tr @ [StatusRequest nd] in
      case http_get w (length tr) statusURL of
        Inl err \<Rightarrow> (Inl err, tr1)
      | Inr (code, body) \<Rightarrow>
          (if code \<noteq> 200 then (Inl (StatusRequestFailed code), tr1)
           else case body of
                  Inl err \<Rightarrow> (Inl err, tr1)
                | Inr status \<Rightarrow> (extract_status status, tr1)))"

text \<open>
  The loop of \<^verbatim>\<open>DiscoverLeader\<close> over \<^verbatim>\<open>cm.nodes\<close>, carrying \<^verbatim>\<open>lastErr\<close>. The first
  node that answers installs leader, peers and the time read after its answer.
\<close>

fun discover_loop ::
  "world \<Rightarrow> string list \<Rightarrow> error option \<Rightarrow> ClusterManager \<Rightarrow> trace
     \<Rightarrow> error option \<times> ClusterManager \<times> trace" where
  "discover_loop w [] lastErr cm tr = (Some (DiscoverFailed lastErr), cm, tr)"
| "discover_loop w (nd # rest) lastErr cm tr =
     (case queryNodeStatus w tr nd of
        (Inl err, tr1) \<Rightarrow> discover_loop w rest (Some err) cm tr1
      | (Inr (ldr, prs), tr1) \<Rightarrow>
          (case Now w tr1 of
             (t, tr2) \<Rightarrow> (None, cm\<lparr>leader := ldr, peers := prs, lastUpdate := t\<rparr>, tr2)))"

definition DiscoverLeader ::
  "world \<Rightarrow> ClusterManager \<Rightarrow> trace \<Rightarrow> error option \<times> ClusterManager \<times> trace" where
  "DiscoverLeader w cm tr =
     (case Since w tr (lastUpdate cm) of
        (d, tr1) \<Rightarrow>
          if d < updateInterval cm then (None, cm, tr1)
          else discover_loop w (nodes cm) None cm tr1)"

definition GetLeader :: "ClusterManager \<Rightarrow> string" where
  "GetLeader cm = leader cm"

definition GetPeers :: "ClusterManager \<Rightarrow> string list" where
  "GetPeers cm = [] @ peers cm"

text \<open>
  \<^verbatim>\<open>GetAllNodes\<close> fills a \<^verbatim>\<open>map[string]bool\<close> and ranges over it. The map is an
  association list with one entry per key; the order of the range is the world's.
\<close>

definition known_map :: "ClusterManager \<Rightarrow> (string \<times> bool) list" where
  "known_map cm =
     fold (\<lambda>peer m. AList.update peer True m) (peers cm)
       (if leader cm \<noteq> [] then AList.update (leader cm) True [] else [])"

definition GetAllNodes :: "world \<Rightarrow> ClusterManager \<Rightarrow> string list" where
  "GetAllNodes w cm = map_order w (map fst (known_map cm))"

definition SelectBestNode :: "ClusterManager \<Rightarrow> string \<Rightarrow> string" where
  "SelectBestNode cm consistencyLevel =
     (let any_node =
            (if leader cm \<noteq> [] then leader cm
             else if length (peers cm) > 0 then hd (peers cm)
             else if length (nodes cm) > 0 then hd (nodes cm)
             else [])
      in if consistencyLevel = ''strong''
         then (if leader cm \<noteq> [] then leader cm else any_node)
         else any_node)"

definition ForceRefresh ::
  "world \<Rightarrow> ClusterManager \<Rightarrow> trace \<Rightarrow> error option \<times> ClusterManager \<times> trace" where
  "ForceRefresh w cm tr = DiscoverLeader w (cm\<lparr>lastUpdate := 0\<rparr>) tr"

text \<open>A caller that calls \<^verbatim>\<open>DiscoverLeader\<close> \<open>n\<close> times in a row.\<close>

fun DiscoverLeader_times ::
  "world \<Rightarrow> nat \<Rightarrow> ClusterManager \<Rightarrow> trace \<Rightarrow> error option list \<times> ClusterManager \<times> trace" where
  "DiscoverLeader_times w 0 cm tr = ([], cm, tr)"
| "DiscoverLeader_times w (Suc n) cm tr =
     (case DiscoverLeader w cm tr of
        (err, cm1, tr1) \<Rightarrow>
          (case DiscoverLeader_times w n cm1 tr1 of
             (errs, cm2, tr2) \<Rightarrow> (err # errs, cm2, tr2)))"

section \<open>result.go: results and rows\<close>

record Result =
  lastInsertID :: "64 word"
  rowsAffected :: "64 word"

record Rows =
  result :: "QueryResult option"
  closed :: bool

text \<open>
  \<^verbatim>\<open>string(rune(x))\<close>: the UTF-8 encoding of the code point, or of U+FFFD when the rune
  is not a valid code point.
\<close>

definition utf8_encode :: "nat \<Rightarrow> string" where
  "utf8_encode cp =
     (if cp < 128 then [char_of cp]
      else if cp < 2048 then [char_of (192 + cp div 64), char_of (128 + cp mod 64)]
      else if cp < 65536 then
        [char_of (224 + cp div 4096), char_of (128 + cp div 64 mod 64), char_of (128 + cp mod 64)]
      else
        [char_of (240 + cp div 262144), char_of (128 + cp div 4096 mod 64),
         char_of (128 + cp div 64 mod 64), char_of (128 + cp mod 64)])"

definition string_of_rune :: "32 word \<Rightarrow> string" where
  "string_of_rune r =
     (if 0 \<le> sint r \<and> sint r \<le> 1114111 \<and> \<not> (55296 \<le> sint r \<and> sint r \<le> 57343)
      then utf8_encode (nat (sint r))
      else utf8_encode 65533)"

text \<open>
  \<^verbatim>\<open>rune(f)\<close> for a \<^verbatim>\<open>float64\<close>: truncation towards zero; where the result does not
  fit, Go leaves the value to the implementation, and amd64 yields the least \<^verbatim>\<open>int32\<close>.
\<close>

definition rune_of_float :: "go_float \<Rightarrow> 32 word" where
  "rune_of_float f =
     (case f of
        Finite r \<Rightarrow>
          (let t = (if 0 \<le> r then \<lfloor>r\<rfloor> else \<lceil>r\<rceil>)
           in if - (2 ^ 31) \<le> t \<and> t < 2 ^ 31 then word_of_int t else word_of_int (- (2 ^ 31)))
      | _ \<Rightarrow> word_of_int (- (2 ^ 31)))"

fun convertToString :: "go_value \<Rightarrow> string" where
  "convertToString VNil = []"
| "convertToString (VString v) = v"
| "convertToString (VInt v) = string_of_rune (ucast v)"
| "convertToString (VInt8 v) = string_of_rune (scast v)"
| "convertToString (VInt16 v) = string_of_rune (scast v)"
| "convertToString (VInt32 v) = string_of_rune v"
| "convertToString (VInt64 v) = string_of_rune (ucast v)"
| "convertToString (VUint v) = string_of_rune (ucast v)"
| "convertToString (VUint8 v) = string_of_rune (ucast v)"
| "convertToString (VUint16 v) = string_of_rune (ucast v)"
| "convertToString (VUint32 v) = string_of_rune v"
| "convertToString (VUint64 v) = string_of_rune (ucast v)"
| "convertToString (VFloat32 v) = string_of_rune (rune_of_float v)"
| "convertToString (VFloat64 v) = string_of_rune (rune_of_float v)"
| "convertToString (VBool v) = (if v then ''true'' else ''false'')"
| "convertToString (VBytes v) = ''<[]uint8 Value>''"
| "convertToString (VTime v) = ''<time.Time Value>''"
| "convertToString (VOther (RString v)) = v"
| "convertToString (VOther (RInt v)) = string_of_rune (ucast v)"
| "convertToString (VOther (RUint v)) = string_of_rune (ucast v)"
| "convertToString (VOther (RFloat v)) = string_of_rune (rune_of_float v)"
| "convertToString (VOther (RBool v)) = (if v then ''true'' else ''false'')"
| "convertToString (VOther (ROther v)) = v"

text \<open>
  The type switch of \<^verbatim>\<open>convertValue\<close>. \<^verbatim>\<open>int64(v)\<close> sign-extends a signed integer
  (\<open>scast\<close>) and zero-extends an unsigned one (\<open>ucast\<close>); at 64 bits both keep the bits.
\<close>

fun convertValue :: "go_value \<Rightarrow> go_value" where
  "convertValue VNil = VNil"
| "convertValue (VBool v) = VBool v"
| "convertValue (VInt v) = VInt64 (scast v)"
| "convertValue (VInt8 v) = VInt64 (scast v)"
| "convertValue (VInt16 v) = VInt64 (scast v)"
| "convertValue (VInt32 v) = VInt64 (scast v)"
| "convertValue (VInt64 v) = VInt64 v"
| "convertValue (VUint v) = VInt64 (ucast v)"
| "convertValue (VUint8 v) = VInt64 (ucast v)"
| "convertValue (VUint16 v) = VInt64 (ucast v)"
| "convertValue (VUint32 v) = VInt64 (ucast v)"
| "convertValue (VUint64 v) = VInt64 (ucast v)"
| "convertValue (VFloat32 v) = VFloat64 v"
| "convertValue (VFloat64 v) = VFloat64 v"
| "convertValue (VString v) = VString v"
| "convertValue (VBytes v) = VBytes v"
| "convertValue (VTime v) = VTime v"
| "convertValue (VOther v) = VString (convertToString (VOther v))"

text \<open>
  The two methods of gorqlite's \<^verbatim>\<open>QueryResult\<close> that \<^verbatim>\<open>Rows.Next\<close> calls, as the
  library defines them. \<^verbatim>\<open>Next\<close> moves the cursor to the next row if there is one.
  \<^verbatim>\<open>Scan\<close> takes one destination for each column; it skips a destination whose cell is
  nil, and stores any other cell through the destination when that is a pointer to one of
  the types it knows; every other destination is an error. The values of this model are
  not pointers, so a destination here always takes the last branch.
\<close>

definition QueryResult_Next :: "QueryResult \<Rightarrow> bool \<times> QueryResult" where
  "QueryResult_Next qr =
     (if rowNumber qr \<ge> int (length (rows qr)) - 1 then (False, qr)
      else (True, qr\<lparr>rowNumber := rowNumber qr + 1\<rparr>))"

fun scan_dests :: "nat \<Rightarrow> go_value list \<Rightarrow> go_value list \<Rightarrow> error option" where
  "scan_dests n thisRowValues [] = None"
| "scan_dests n [] (d # ds) = Some RuntimePanic"
| "scan_dests n (src # thisRowValues) (d # ds) =
     (if src = VNil then scan_dests (Suc n) thisRowValues ds
      else Some (ScanUnknownDestination n))"

definition QueryResult_Scan :: "QueryResult \<Rightarrow> go_value list \<Rightarrow> error option" where
  "QueryResult_Scan qr dest =
     (if rowNumber qr = - 1 then Some ScanBeforeNext
      else if length dest \<noteq> length (columns qr)
        then Some (ScanColumnCount (length (columns qr)) (length dest))
      else if rowNumber qr < 0 \<or> int (length (rows qr)) \<le> rowNumber qr then Some RuntimePanic
      else scan_dests 0 (rows qr ! nat (rowNumber qr)) dest)"

text \<open>
  \<^verbatim>\<open>Rows.Next\<close> returns the error (\<open>None\<close> for nil), the cursor and the contents of
  \<^verbatim>\<open>dest\<close>. The temporary slice \<^verbatim>\<open>values\<close> holds \<^verbatim>\<open>len(dest)\<close> nil interface values,
  and these values, not pointers to them, are the destinations handed to \<^verbatim>\<open>Scan\<close>, which
  therefore cannot store anything in the slice.
\<close>

definition Next :: "Rows \<Rightarrow> go_value list \<Rightarrow> error option \<times> Rows \<times> go_value list" where
  "Next r dest =
     (if closed r \<or> result r = None then (Some EOF, r, dest)
      else case result r of
        None \<Rightarrow> (Some EOF, r, dest)
      | Some qr \<Rightarrow>
          (case QueryResult_Next qr of
             (False, qr') \<Rightarrow> (Some EOF, r\<lparr>result := Some qr'\<rparr>, dest)
           | (True, qr') \<Rightarrow>
               (let vals = replicate (length dest) VNil in
                case QueryResult_Scan qr' vals of
                  Some err \<Rightarrow> (Some err, r\<lparr>result := Some qr'\<rparr>, dest)
                | None \<Rightarrow> (None, r\<lparr>result := Some qr'\<rparr>, map convertValue vals))))"

text \<open>
  Two readings of a value, used to state what \<^verbatim>\<open>convertValue\<close> achieves: the integer a
  value of one of the ten built-in integer types denotes, and
  \<^verbatim>\<open>driver.IsValue\<close> of database/sql, the values a driver may hand to its caller.
\<close>

fun integer_value :: "go_value \<Rightarrow> int option" where
  "integer_value (VInt a) = Some (sint a)"
| "integer_value (VInt8 a) = Some (sint a)"
| "integer_value (VInt16 a) = Some (sint a)"
| "integer_value (VInt32 a) = Some (sint a)"
| "integer_value (VInt64 a) = Some (sint a)"
| "integer_value (VUint a) = Some (uint a)"
| "integer_value (VUint8 a) = Some (uint a)"
| "integer_value (VUint16 a) = Some (uint a)"
| "integer_value (VUint32 a) = Some (uint a)"
| "integer_value (VUint64 a) = Some (uint a)"
| "integer_value _ = None"

fun IsValue :: "go_value \<Rightarrow> bool" where
  "IsValue VNil = True"
| "IsValue (VBytes v) = True"
| "IsValue (VBool v) = True"
| "IsValue (VFloat64 v) = True"
| "IsValue (VInt64 v) = True"
| "IsValue (VString v) = True"
| "IsValue (VTime v) = True"
| "IsValue _ = False"


section \<open>Package strings\<close>

text \<open>
  Strings are byte sequences. \<^verbatim>\<open>strings.Split\<close> cuts at every non-overlapping
  occurrence of the separator, found from the left by \<^verbatim>\<open>strings.Index\<close>; the program
  never passes an empty separator.
\<close>

definition HasPrefix :: "string \<Rightarrow> string \<Rightarrow> bool" where
  "HasPrefix s p = (take (length p) s = p)"

definition TrimPrefix :: "string \<Rightarrow> string \<Rightarrow> string" where
  "TrimPrefix s p = (if HasPrefix s p then drop (length p) s else s)"

fun Index :: "string \<Rightarrow> string \<Rightarrow> nat option" where
  "Index [] sep = (if sep = [] then Some 0 else None)"
| "Index (c # cs) sep =
     (if HasPrefix (c # cs) sep then Some 0 else map_option Suc (Index cs sep))"

definition Contains :: "string \<Rightarrow> string \<Rightarrow> bool" where
  "Contains s sub = (Index s sub \<noteq> None)"

lemma Index_nonempty: "Index s sep = Some i \<Longrightarrow> sep \<noteq> [] \<Longrightarrow> s \<noteq> []"
  by (cases s) auto

function Split :: "string \<Rightarrow> string \<Rightarrow> string list" where
  "Split s sep =
     (if sep = [] then map (\<lambda>c. [c]) s
      else case Index s sep of
             None \<Rightarrow> [s]
           | Some i \<Rightarrow> take i s # Split (drop (i + length sep) s) sep)"
  by pat_completeness auto
termination
proof (relation "measure (\<lambda>(s, sep). length s)")
  show "wf (measure (\<lambda>(s, sep). length s))"
    by simp
next
  fix s sep :: string and i :: nat
  assume "sep \<noteq> []" and "Index s sep = Some i"
  then have "s \<noteq> []"
    using Index_nonempty by blast
  with \<open>sep \<noteq> []\<close> show "((drop (i + length sep) s, sep), (s, sep)) \<in> measure (\<lambda>(s, sep). length s)"
    by simp
qed

declare Split.simps [simp del]

text \<open>
  \<^verbatim>\<open>strings.TrimSpace\<close> removes the leading and the trailing white space, as Unicode
  defines it: the six ASCII space characters and the UTF-8 encodings of U+0085, U+00A0,
  U+1680, U+2000 to U+200A, U+2028, U+2029, U+202F, U+205F and U+3000.
\<close>

definition space_encodings :: "string list" where
  "space_encodings =
     [[CHR 0x09], [CHR 0x0A], [CHR 0x0B], [CHR 0x0C], [CHR 0x0D], [CHR 0x20],
      [CHR 0xC2, CHR 0x85], [CHR 0xC2, CHR 0xA0], [CHR 0xE1, CHR 0x9A, CHR 0x80],
      [CHR 0xE2, CHR 0x80, CHR 0x80], [CHR 0xE2, CHR 0x80, CHR 0x81],
      [CHR 0xE2, CHR 0x80, CHR 0x82], [CHR 0xE2, CHR 0x80, CHR 0x83],
      [CHR 0xE2, CHR 0x80, CHR 0x84], [CHR 0xE2, CHR 0x80, CHR 0x85],
      [CHR 0xE2, CHR 0x80, CHR 0x86], [CHR 0xE2, CHR 0x80, CHR 0x87],
      [CHR 0xE2, CHR 0x80, CHR 0x88], [CHR 0xE2, CHR 0x80, CHR 0x89],
      [CHR 0xE2, CHR 0x80, CHR 0x8A], [CHR 0xE2, CHR 0x80, CHR 0xA8],
      [CHR 0xE2, CHR 0x80, CHR 0xA9], [CHR 0xE2, CHR 0x80, CHR 0xAF],
      [CHR 0xE2, CHR 0x81, CHR 0x9F], [CHR 0xE3, CHR 0x80, CHR 0x80]]"

function trim_leading :: "string list \<Rightarrow> string \<Rightarrow> string" where
  "trim_leading encs s =
     (case find (\<lambda>e. e \<noteq> [] \<and> HasPrefix s e) encs of
        None \<Rightarrow> s
      | Some e \<Rightarrow> trim_leading encs (drop (length e) s))"
  by pat_completeness auto
termination
proof (relation "measure (\<lambda>(encs, s). length s)")
  show "wf (measure (\<lambda>(encs, s). length s))"
    by simp
next
  fix encs :: "string list" and s e :: string
  assume "find (\<lambda>e. e \<noteq> [] \<and> HasPrefix s e) encs = Some e"
  then have "e \<noteq> [] \<and> HasPrefix s e"
    by (auto simp: find_Some_iff)
  then have "s \<noteq> []" and "e \<noteq> []"
    by (auto simp: HasPrefix_def)
  then show "((encs, drop (length e) s), (encs, s)) \<in> measure (\<lambda>(encs, s). length s)"
    by simp
qed

declare trim_leading.simps [simp del]

definition TrimSpace :: "string \<Rightarrow> string" where
  "TrimSpace s =
     rev (trim_leading (map rev space_encodings) (rev (trim_leading space_encodings s)))"

section \<open>time.ParseDuration\<close>

text \<open>
  The standard library's parser of durations such as \<^verbatim>\<open>45s\<close> or \<^verbatim>\<open>1h30m\<close>: an optional
  sign, then groups of a decimal number and a unit. Numbers are unsigned 64-bit integers with
  the library's overflow checks. \<open>None\<close> is an error.

  The contribution of a fraction is \<^verbatim>\<open>uint64(float64(f) * (float64(unit) / scale))\<close>.
  A positive \<^verbatim>\<open>float64\<close> in the normal range is a number \<open>m * 2 ^ e\<close> with
  \<open>2 ^ 52 \<le> m < 2 ^ 53\<close>; a conversion, a product or a quotient is the exact result
  rounded to the nearest such number, to the even \<open>m\<close> on a tie. The numbers met here
  (integers below \<open>2 ^ 64\<close>, units over powers of ten up to \<open>10 ^ 19\<close>) lie in that range.
\<close>

definition round_even :: "rat \<Rightarrow> int" where
  "round_even r =
     (let fl = \<lfloor>r\<rfloor>; rest = r - of_int fl in
      if rest < 1 / 2 then fl
      else if 1 / 2 < rest then fl + 1
      else if even fl then fl else fl + 1)"

definition pow2 :: "int \<Rightarrow> rat" where
  "pow2 k = (if 0 \<le> k then 2 ^ nat k else 1 / 2 ^ nat (- k))"

definition float64_of :: "rat \<Rightarrow> rat" where
  "float64_of x =
     (if x \<le> 0 then 0
      else case quotient_of x of
        (a, b) \<Rightarrow>
          (let d = int (floorlog 2 (nat a)) - int (floorlog 2 (nat b));
               l = (if pow2 d \<le> x then d else d - 1);
               e = l - 52
           in of_int (round_even (x / pow2 e)) * pow2 e))"

definition fraction_part :: "nat \<Rightarrow> nat \<Rightarrow> nat \<Rightarrow> nat" where
  "fraction_part f unit scale =
     nat \<lfloor>float64_of (float64_of (of_nat f) * float64_of (of_nat unit / of_nat scale))\<rfloor>"

definition is_digit :: "char \<Rightarrow> bool" where
  "is_digit c = ((of_char CHR ''0'' :: nat) \<le> of_char c \<and> (of_char c :: nat) \<le> of_char CHR ''9'')"

definition digit_value :: "char \<Rightarrow> nat" where
  "digit_value c = (of_char c :: nat) - of_char CHR ''0''"

fun leadingInt_loop :: "nat \<Rightarrow> string \<Rightarrow> (nat \<times> string) option" where
  "leadingInt_loop x [] = Some (x, [])"
| "leadingInt_loop x (c # cs) =
     (if \<not> is_digit c then Some (x, c # cs)
      else if x > 2 ^ 63 div 10 then None
      else (let y = x * 10 + digit_value c
            in if y > 2 ^ 63 then None else leadingInt_loop y cs))"

definition leadingInt :: "string \<Rightarrow> (nat \<times> string) option" where
  "leadingInt s = leadingInt_loop 0 s"

fun leadingFraction_loop :: "nat \<Rightarrow> nat \<Rightarrow> bool \<Rightarrow> string \<Rightarrow> nat \<times> nat \<times> string" where
  "leadingFraction_loop x scale overflow [] = (x, scale, [])"
| "leadingFraction_loop x scale overflow (c # cs) =
     (if \<not> is_digit c then (x, scale, c # cs)
      else if overflow then leadingFraction_loop x scale overflow cs
      else if x > (2 ^ 63 - 1) div 10 then leadingFraction_loop x scale True cs
      else (let y = x * 10 + digit_value c
            in if y > 2 ^ 63 then leadingFraction_loop x scale True cs
               else leadingFraction_loop y (scale * 10) overflow cs))"

definition leadingFraction :: "string \<Rightarrow> nat \<times> nat \<times> string" where
  "leadingFraction s = leadingFraction_loop 0 1 False s"

definition unitMap :: "string \<Rightarrow> nat option" where
  "unitMap u =
     (if u = ''ns'' then Some 1
      else if u = ''us'' then Some 1000
      else if u = [CHR 0xC2, CHR 0xB5, CHR ''s''] then Some 1000
      else if u = [CHR 0xCE, CHR 0xBC, CHR ''s''] then Some 1000
      else if u = ''ms'' then Some 1000000
      else if u = ''s'' then Some 1000000000
      else if u = ''m'' then Some 60000000000
      else if u = ''h'' then Some 3600000000000
      else None)"

definition unit_char :: "char \<Rightarrow> bool" where
  "unit_char c = (\<not> (c = CHR ''.'' \<or> is_digit c))"

lemma leadingInt_loop_length: "leadingInt_loop x s = Some (v, r) \<Longrightarrow> length r \<le> length s"
  by (induction x s rule: leadingInt_loop.induct) (auto simp: Let_def split: if_splits)

lemma leadingFraction_loop_length':
  "length (snd (snd (leadingFraction_loop x sc ov s))) \<le> length s"
  by (induction x sc ov s rule: leadingFraction_loop.induct) (auto simp: Let_def le_SucI)

lemma leadingFraction_loop_length:
  "leadingFraction_loop x sc ov s = (f, sc', r) \<Longrightarrow> length r \<le> length s"
  using leadingFraction_loop_length' [of x sc ov s] by simp

text \<open>
  One number with its fraction: the integer part, the fraction and its scale, the rest of
  the text, and whether any digit was read. \<open>None\<close> is an error.
\<close>

definition duration_number :: "string \<Rightarrow> (nat \<times> nat \<times> nat \<times> string) option" where
  "duration_number s =
     (case leadingInt s of
        None \<Rightarrow> None
      | Some (v, s1) \<Rightarrow>
          (let pre = (length s \<noteq> length s1) in
           case s1 of
             [] \<Rightarrow> if pre then Some (v, 0, 1, s1) else None
           | c # s1' \<Rightarrow>
               if c = CHR ''.'' then
                 (case leadingFraction s1' of
                    (f, scale, s2) \<Rightarrow>
                      if \<not> pre \<and> length s1' = length s2 then None else Some (v, f, scale, s2))
               else if pre then Some (v, 0, 1, s1) else None))"

lemma duration_number_length:
  assumes "duration_number s = Some (v, f, sc, r)"
  shows "length r \<le> length s"
proof -
  from assms obtain v1 s1 where li: "leadingInt s = Some (v1, s1)"
    by (auto simp: duration_number_def split: option.splits)
  then have s1: "length s1 \<le> length s"
    by (auto simp: leadingInt_def dest: leadingInt_loop_length)
  show ?thesis
  proof (cases s1)
    case Nil
    with assms li show ?thesis
      by (auto simp: duration_number_def Let_def split: if_splits)
  next
    case (Cons c s1')
    show ?thesis
    proof (cases "c = CHR ''.''")
      case True
      obtain f' sc' s2 where lf: "leadingFraction s1' = (f', sc', s2)"
        by (cases "leadingFraction s1'") auto
      then have "length s2 \<le> length s1'"
        by (auto simp: leadingFraction_def dest: leadingFraction_loop_length)
      with assms li Cons True lf s1 show ?thesis
        by (auto simp: duration_number_def Let_def split: if_splits)
    next
      case False
      with assms li Cons s1 show ?thesis
        by (auto simp: duration_number_def Let_def split: if_splits)
    qed
  qed
qed

function duration_groups :: "nat \<Rightarrow> string \<Rightarrow> nat option" where
  "duration_groups d s =
     (if s = [] then Some d
      else if \<not> (hd s = CHR ''.'' \<or> is_digit (hd s)) then None
      else case duration_number s of
             None \<Rightarrow> None
           | Some (v, f, scale, s2) \<Rightarrow>
               (let u = takeWhile unit_char s2; s3 = dropWhile unit_char s2 in
                if u = [] then None
                else case unitMap u of
                       None \<Rightarrow> None
                     | Some unit \<Rightarrow>
                         if v > 2 ^ 63 div unit then None
                         else (let v1 = (if f > 0 then v * unit + fraction_part f unit scale
                                         else v * unit)
                               in if f > 0 \<and> v1 > 2 ^ 63 then None
                                  else (let d1 = (d + v1) mod 2 ^ 64
                                        in if d1 > 2 ^ 63 then None
                                           else duration_groups d1 s3))))"
  by pat_completeness auto
termination
proof (relation "measure (\<lambda>(d, s). length s)")
  show "wf (measure (\<lambda>(d, s). length s))"
    by simp
next
  fix d :: nat and s s2 u s3 :: string and x a b c v f scale
  assume num: "duration_number s = Some x" "(v, a) = x" "(f, b) = a" "(scale, s2) = b"
    and u: "u = takeWhile unit_char s2" "u \<noteq> []" and s3: "s3 = dropWhile unit_char s2"
  from num have "length s2 \<le> length s"
    by (auto dest: duration_number_length)
  moreover from u s3 have "length s3 < length s2"
    by (metis length_append length_greater_0_conv less_add_same_cancel2
        takeWhile_dropWhile_id)
  ultimately have "length s3 < length s"
    by simp
  then show "\<And>unit v1 d1. ((d1, s3), (d, s)) \<in> measure (\<lambda>(d, s). length s)"
    by simp
qed

declare duration_groups.simps [simp del]

definition ParseDuration :: "string \<Rightarrow> Duration option" where
  "ParseDuration orig =
     (let neg = (orig \<noteq> [] \<and> hd orig = CHR ''-'');
          s = (if orig \<noteq> [] \<and> (hd orig = CHR ''-'' \<or> hd orig = CHR ''+'') then tl orig else orig)
      in if s = ''0'' then Some 0
         else if s = [] then None
         else case duration_groups 0 s of
                None \<Rightarrow> None
              | Some d \<Rightarrow>
                  if neg then Some (- int d)
                  else if d > 2 ^ 63 - 1 then None
                  else Some (int d))"

section \<open>driver.go: the connection string\<close>

record Config =
  Nodes :: "string list"
  Username :: string
  Password :: string
  Timeout :: Duration
  ConsistencyLevel :: string

text \<open>The loop of \<^verbatim>\<open>ParseDSN\<close> over the parameter pairs.\<close>

fun parse_params :: "Config \<Rightarrow> string list \<Rightarrow> Config" where
  "parse_params cfg [] = cfg"
| "parse_params cfg (param # rest) =
     (let kv = Split param ''='' in
      if length kv \<noteq> 2 then parse_params cfg rest
      else (let key = kv ! 0; val = kv ! 1 in
            if key = ''consistency'' then parse_params (cfg\<lparr>ConsistencyLevel := val\<rparr>) rest
            else if key = ''timeout'' then
              (case ParseDuration val of
                 Some timeout \<Rightarrow> parse_params (cfg\<lparr>Timeout := timeout\<rparr>) rest
               | None \<Rightarrow> parse_params cfg rest)
            else parse_params cfg rest))"

text \<open>The loop of \<^verbatim>\<open>ParseDSN\<close> over the node addresses.\<close>

fun parse_nodes :: "Config \<Rightarrow> string list \<Rightarrow> Config" where
  "parse_nodes cfg [] = cfg"
| "parse_nodes cfg (n # rest) =
     (let nd = TrimSpace n in
      if nd \<noteq> [] then
        (let nd' = (if \<not> HasPrefix nd ''http://'' \<and> \<not> HasPrefix nd ''https://''
                    then ''http://'' @ nd else nd)
         in parse_nodes (cfg\<lparr>Nodes := Nodes cfg @ [nd']\<rparr>) rest)
      else parse_nodes cfg rest)"

text \<open>
  The three stages of \<^verbatim>\<open>ParseDSN\<close> after the prefix is removed: the credentials before
  \<^verbatim>\<open>@\<close>, the parameters after \<^verbatim>\<open>?\<close>, the nodes. Each takes the configuration and the
  text left to parse. Where \<^verbatim>\<open>authParts[1]\<close> is read, the text contains a colon, so that
  the split has two parts at least.
\<close>

definition dsn_auth :: "Config \<Rightarrow> string \<Rightarrow> error + (Config \<times> string)" where
  "dsn_auth cfg dsn =
     (if Contains dsn ''@'' then
        (let parts = Split dsn ''@'' in
         if length parts \<noteq> 2 then Inl InvalidDsnFormat
         else (let authPart = parts ! 0; dsn' = parts ! 1 in
               if Contains authPart '':'' then
                 (let authParts = Split authPart '':'' in
                  Inr (cfg\<lparr>Username := authParts ! 0, Password := authParts ! 1\<rparr>, dsn'))
               else Inr (cfg\<lparr>Username := authPart\<rparr>, dsn')))
      else Inr (cfg, dsn))"

definition dsn_params :: "Config \<Rightarrow> string \<Rightarrow> error + (Config \<times> string)" where
  "dsn_params cfg dsn =
     (if Contains dsn ''?'' then
        (let parts = Split dsn ''?'' in
         if length parts \<noteq> 2 then Inl InvalidDsnFormat
         else (let dsn' = parts ! 0; params = parts ! 1 in
               Inr (parse_params cfg (Split params ''&''), dsn')))
      else Inr (cfg, dsn))"

definition dsn_nodes :: "Config \<Rightarrow> string \<Rightarrow> error + Config" where
  "dsn_nodes cfg dsn =
     (if dsn = [] then Inl NoNodesSpecified
      else (let cfg' = parse_nodes cfg (Split dsn '','') in
            if length (Nodes cfg') = 0 then Inl NoValidNodes else Inr cfg'))"

definition ParseDSN :: "string \<Rightarrow> error + Config" where
  "ParseDSN dsn =
     (let cfg = \<lparr>Nodes = [], Username = [], Password = [],
                 Timeout = 30 * Second, ConsistencyLevel = ''weak''\<rparr> in
      if dsn = [] then Inl DsnEmpty
      else (let dsn1 = TrimPrefix (TrimPrefix dsn ''sqlite://'') ''rqlite://'' in
            case dsn_auth cfg dsn1 of
              Inl err \<Rightarrow> Inl err
            | Inr (cfg1, dsn2) \<Rightarrow>
                (case dsn_params cfg1 dsn2 of
                   Inl err \<Rightarrow> Inl err
                 | Inr (cfg2, dsn3) \<Rightarrow> dsn_nodes cfg2 dsn3)))"


section \<open>connection.go: the connection\<close>

text \<open>
  \<^verbatim>\<open>sync.RWMutex\<close> is not reentrant. \<open>Lock\<close> and \<open>RLock\<close> give the state of the mutex
  once acquired, or \<open>None\<close> when the caller has to wait. A connection is used by one
  goroutine at a time, so a caller that waits for a lock the same call chain holds
  waits forever. Every unlock in the package follows its own lock, so an unlock never meets
  a mutex that is not held that way.
\<close>

datatype RWMutex = Free | Shared nat | Exclusive

definition Lock :: "RWMutex \<Rightarrow> RWMutex option" where
  "Lock m = (case m of Free \<Rightarrow> Some Exclusive | _ \<Rightarrow> None)"

definition Unlock :: "RWMutex \<Rightarrow> RWMutex" where
  "Unlock m = (case m of Exclusive \<Rightarrow> Free | _ \<Rightarrow> m)"

definition RLock :: "RWMutex \<Rightarrow> RWMutex option" where
  "RLock m = (case m of Free \<Rightarrow> Some (Shared 1) | Shared n \<Rightarrow> Some (Shared (n + 1))
              | Exclusive \<Rightarrow> None)"

definition RUnlock :: "RWMutex \<Rightarrow> RWMutex" where
  "RUnlock m = (case m of Shared n \<Rightarrow> (if n \<le> 1 then Free else Shared (n - 1)) | _ \<Rightarrow> m)"

record Conn =
  cfg :: Config
  client :: "Connection option"
  mu :: RWMutex
  closed :: bool
  clusterManager :: ClusterManager

record NamedValue =
  Name :: string
  Ordinal :: int
  Value :: go_value

text \<open>
  How a call on a connection ends: it returns a value, it waits forever for the mutex, or
  it dereferences a nil client. Each carries the connection and the trace at that point.
\<close>

datatype 'a outcome = Returns 'a Conn trace | Blocks Conn trace | Panics Conn trace

text \<open>
  \<^verbatim>\<open>createClient\<close>: \<^verbatim>\<open>gorqlite.Open\<close>, the consistency level (a level other than the
  three named ones leaves gorqlite's default, weak), and the liveness query; a client
  that fails the query is closed.
\<close>

definition createClient ::
  "world \<Rightarrow> Conn \<Rightarrow> trace \<Rightarrow> string \<Rightarrow> (error + Connection) \<times> trace" where
  "createClient w c tr nd =
     (case gorqlite_open w (length tr) nd of
        Some err \<Rightarrow> (Inl err, tr @ [OpenClient nd])
      | None \<Rightarrow>
          (let tr1 = tr @ [OpenClient nd];
               lv = ConsistencyLevel (cfg c);
               cl = \<lparr>node = nd,
                     level = (if lv = ''strong'' then ''strong''
                              else if lv = ''weak'' then ''weak''
                              else if lv = ''none'' then ''none''
                              else ''weak'')\<rparr>
           in case select_one w (length tr1) cl of
                Some err \<Rightarrow> (Inl err, tr1 @ [SelectOne nd, CloseClient nd])
              | None \<Rightarrow> (Inr cl, tr1 @ [SelectOne nd])))"

fun connect_loop ::
  "world \<Rightarrow> Conn \<Rightarrow> string list \<Rightarrow> error option \<Rightarrow> trace \<Rightarrow> error option \<times> Conn \<times> trace" where
  "connect_loop w c [] lastErr tr =
     (case lastErr of
        Some err \<Rightarrow> (Some (ConnectFailed err), c, tr)
      | None \<Rightarrow> (Some NoNodesAvailable, c, tr))"
| "connect_loop w c (nd # rest) lastErr tr =
     (case createClient w c tr nd of
        (Inl err, tr1) \<Rightarrow> connect_loop w c rest (Some err) tr1
      | (Inr cl, tr1) \<Rightarrow> (None, c\<lparr>client := Some cl\<rparr>, tr1))"

text \<open>The nodes \<^verbatim>\<open>connectToAnyNode\<close> tries, in order.\<close>

definition any_node_candidates :: "world \<Rightarrow> Conn \<Rightarrow> string list" where
  "any_node_candidates w c =
     (let found = GetAllNodes w (clusterManager c) in
      if length found = 0 then Nodes (cfg c) else found)"

definition connectToAnyNode :: "world \<Rightarrow> Conn \<Rightarrow> trace \<Rightarrow> error option \<times> Conn \<times> trace" where
  "connectToAnyNode w c tr = connect_loop w c (any_node_candidates w c) None tr"

text \<open>The body of \<^verbatim>\<open>connect\<close>, which runs with the mutex held.\<close>

definition connect_locked :: "world \<Rightarrow> Conn \<Rightarrow> trace \<Rightarrow> error option \<times> Conn \<times> trace" where
  "connect_locked w c tr =
     (if closed c then (Some ConnectionClosed, c, tr)
      else case DiscoverLeader w (clusterManager c) tr of
             (err, cm, tr1) \<Rightarrow>
               (let c1 = c\<lparr>clusterManager := cm\<rparr> in
                case err of
                  Some e \<Rightarrow> connectToAnyNode w c1 tr1
                | None \<Rightarrow>
                    (let best = SelectBestNode cm (ConsistencyLevel (cfg c1)) in
                     if best \<noteq> [] then
                       (case createClient w c1 tr1 best of
                          (Inr cl, tr2) \<Rightarrow> (None, c1\<lparr>client := Some cl\<rparr>, tr2)
                        | (Inl e, tr2) \<Rightarrow> connectToAnyNode w c1 tr2)
                     else connectToAnyNode w c1 tr1)))"

definition connect :: "world \<Rightarrow> Conn \<Rightarrow> trace \<Rightarrow> error option outcome" where
  "connect w c tr =
     (case Lock (mu c) of
        None \<Rightarrow> Blocks c tr
      | Some m \<Rightarrow>
          (case connect_locked w (c\<lparr>mu := m\<rparr>) tr of
             (err, c1, tr1) \<Rightarrow> Returns err (c1\<lparr>mu := Unlock (mu c1)\<rparr>) tr1))"

definition NewConn :: "world \<Rightarrow> Config \<Rightarrow> trace \<Rightarrow> error option outcome" where
  "NewConn w config tr =
     connect w \<lparr>cfg = config, client = None, mu = Free, closed = False,
                clusterManager = NewClusterManager (Nodes config)\<rparr> tr"

definition reconnect :: "world \<Rightarrow> Conn \<Rightarrow> trace \<Rightarrow> error option outcome" where
  "reconnect w c tr =
     (case client c of
        Some cl \<Rightarrow> connect w (c\<lparr>client := None\<rparr>) (tr @ [CloseClient (node cl)])
      | None \<Rightarrow> connect w c tr)"

text \<open>
  The retry loop of \<^verbatim>\<open>ExecContext\<close>, from the value of \<^verbatim>\<open>attempts\<close> and of the
  local variable \<^verbatim>\<open>client\<close>.
\<close>

function exec_loop ::
  "world \<Rightarrow> string \<Rightarrow> go_value list \<Rightarrow> nat \<Rightarrow> Connection option \<Rightarrow> Conn \<Rightarrow> trace
     \<Rightarrow> (error + Result) outcome" where
  "exec_loop w query vals attempts cl c tr =
     (if attempts < 3 then
        (case cl of
           None \<Rightarrow> Panics c tr
         | Some k \<Rightarrow>
             (case write_one w (length tr) k query vals of
                Inr (ident, n) \<Rightarrow>
                  Returns (Inr \<lparr>lastInsertID = ident, rowsAffected = n\<rparr>) c
                    (tr @ [WriteOne (node k) query])
              | Inl err \<Rightarrow>
                  (let tr1 = tr @ [WriteOne (node k) query] in
                   if attempts < 2 then
                     (case Lock (mu c) of
                        None \<Rightarrow> Blocks c tr1
                      | Some m \<Rightarrow>
                          (case reconnect w (c\<lparr>mu := m\<rparr>) tr1 of
                             Blocks c2 tr2 \<Rightarrow> Blocks c2 tr2
                           | Panics c2 tr2 \<Rightarrow> Panics c2 tr2
                           | Returns reconnectErr c2 tr2 \<Rightarrow>
                               (let c3 = c2\<lparr>mu := Unlock (mu c2)\<rparr> in
                                case reconnectErr of
                                  Some e \<Rightarrow> Returns (Inl e) c3 tr2
                                | None \<Rightarrow>
                                    exec_loop w query vals (attempts + 1) (client c2) c3 tr2)))
                   else Returns (Inl err) c tr1)))
      else Returns (Inl MaxRetryExceeded) c tr)"
  by pat_completeness auto
termination
  by (relation "measure (\<lambda>(w, query, vals, attempts, cl, c, tr). 3 - attempts)") auto

declare exec_loop.simps [simp del]

definition ExecContext ::
  "world \<Rightarrow> Conn \<Rightarrow> trace \<Rightarrow> string \<Rightarrow> NamedValue list \<Rightarrow> (error + Result) outcome" where
  "ExecContext w c tr query args =
     (case RLock (mu c) of
        None \<Rightarrow> Blocks c tr
      | Some m \<Rightarrow>
          (let cl = client c; c1 = c\<lparr>mu := RUnlock m\<rparr> in
           if cl = None then Returns (Inl ConnectionClosed) c1 tr
           else exec_loop w query (map Value args) 0 cl c1 tr))"

text \<open>The retry loop of \<^verbatim>\<open>QueryContext\<close>.\<close>

function query_loop ::
  "world \<Rightarrow> string \<Rightarrow> go_value list \<Rightarrow> nat \<Rightarrow> Connection option \<Rightarrow> Conn \<Rightarrow> trace
     \<Rightarrow> (error + Rows) outcome" where
  "query_loop w query vals attempts cl c tr =
     (if attempts < 3 then
        (case cl of
           None \<Rightarrow> Panics c tr
         | Some k \<Rightarrow>
             (case query_one w (length tr) k query vals of
                Inr qr \<Rightarrow>
                  Returns (Inr \<lparr>result = Some qr, Rows.closed = False\<rparr>) c
                    (tr @ [QueryOne (node k) query])
              | Inl err \<Rightarrow>
                  (let tr1 = tr @ [QueryOne (node k) query] in
                   if attempts < 2 then
                     (case Lock (mu c) of
                        None \<Rightarrow> Blocks c tr1
                      | Some m \<Rightarrow>
                          (case reconnect w (c\<lparr>mu := m\<rparr>) tr1 of
                             Blocks c2 tr2 \<Rightarrow> Blocks c2 tr2
                           | Panics c2 tr2 \<Rightarrow> Panics c2 tr2
                           | Returns reconnectErr c2 tr2 \<Rightarrow>
                               (let c3 = c2\<lparr>mu := Unlock (mu c2)\<rparr> in
                                case reconnectErr of
                                  Some e \<Rightarrow> Returns (Inl e) c3 tr2
                                | None \<Rightarrow>
                                    query_loop w query vals (attempts + 1) (client c2) c3 tr2)))
                   else Returns (Inl err) c tr1)))
      else Returns (Inl MaxRetryExceeded) c tr)"
  by pat_completeness auto
termination
  by (relation "measure (\<lambda>(w, query, vals, attempts, cl, c, tr). 3 - attempts)") auto

declare query_loop.simps [simp del]

definition QueryContext ::
  "world \<Rightarrow> Conn \<Rightarrow> trace \<Rightarrow> string \<Rightarrow> NamedValue list \<Rightarrow> (error + Rows) outcome" where
  "QueryContext w c tr query args =
     (case RLock (mu c) of
        None \<Rightarrow> Blocks c tr
      | Some m \<Rightarrow>
          (let cl = client c; c1 = c\<lparr>mu := RUnlock m\<rparr> in
           if cl = None then Returns (Inl ConnectionClosed) c1 tr
           else query_loop w query (map Value args) 0 cl c1 tr))"

section \<open>Sample clusters\<close>

text \<open>
  The worlds the concrete evaluations below run in. In \<open>healthy_world\<close> every status
  request is answered with leader \<^verbatim>\<open>http://host1:4001\<close> and one peer, every node accepts
  a connection, every statement succeeds, and a second passes between two steps.
\<close>

definition start_time :: Time where
  "start_time = 63900000000 * Second"

definition cluster_status :: "(string \<times> json) list" where
  "cluster_status =
     [(''cluster'', JObject [(''leader'', JString ''http://host1:4001''),
                             (''peers'', JArray [JString ''http://host2:4002''])])]"

definition healthy_world :: world where
  "healthy_world =
     \<lparr>clock = (\<lambda>n. start_time + int n * Second),
      http_get = (\<lambda>n url. Inr (200, Inr cluster_status)),
      map_order = (\<lambda>ks. ks),
      gorqlite_open = (\<lambda>n nd. None),
      select_one = (\<lambda>n cl. None),
      write_one = (\<lambda>n cl q vs. Inr (1, 1)),
      query_one = (\<lambda>n cl q vs. Inr \<lparr>columns = [], rows = [], rowNumber = - 1\<rparr>)\<rparr>"

text \<open>
  Two cursors as \<^verbatim>\<open>QueryContext\<close> returns them, before the first row: one over a row
  with a number, a text and a NULL, the other over a row of NULLs.
\<close>

definition sample_rows :: Rows where
  "sample_rows =
     \<lparr>result = Some \<lparr>columns = [''id'', ''name'', ''note''],
                      rows = [[VFloat64 (Finite 7), VString ''alice'', VNil]],
                      rowNumber = - 1\<rparr>,
      closed = False\<rparr>"

definition null_rows :: Rows where
  "null_rows =
     \<lparr>result = Some \<lparr>columns = [''name'', ''note''], rows = [[VNil, VNil]],
                      rowNumber = - 1\<rparr>,
      closed = False\<rparr>"

text \<open>
  \<open>relocated_world\<close>: the node answers that the leader is \<^verbatim>\<open>http://host9:4001\<close>, an
  address outside the configured list, and a minute passes between two steps.
  \<open>silent_world\<close>: no node answers a status request or accepts a connection.
  \<open>known_cluster\<close>: a manager that learnt its leader and peer a minute before
  \<open>start_time\<close>; \<open>known_conn\<close>: a connection bound to that leader.
\<close>

definition relocated_world :: world where
  "relocated_world =
     healthy_world
       \<lparr>clock := (\<lambda>n. start_time + int n * 60 * Second),
        http_get := (\<lambda>n url. Inr (200, Inr
          [(''cluster'', JObject [(''leader'', JString ''http://host9:4001''),
                                  (''peers'', JArray [JString ''http://host1:4001''])])]))\<rparr>"

definition silent_world :: world where
  "silent_world =
     healthy_world
       \<lparr>http_get := (\<lambda>n url. Inl (External ''connection refused'')),
        gorqlite_open := (\<lambda>n nd. Some (External ''connection refused''))\<rparr>"

definition known_cluster :: ClusterManager where
  "known_cluster =
     \<lparr>nodes = [''http://host1:4001'', ''http://host2:4002''], leader = ''http://host1:4001'',
      peers = [''http://host2:4002''], lastUpdate = start_time - 60 * Second,
      updateInterval = 30 * Second\<rparr>"

definition sample_config :: Config where
  "sample_config =
     \<lparr>Nodes = [''http://host1:4001'', ''http://host2:4002''], Username = [], Password = [],
      Timeout = 30 * Second, ConsistencyLevel = ''strong''\<rparr>"

definition known_conn :: Conn where
  "known_conn =
     \<lparr>cfg = sample_config, client = Some \<lparr>node = ''http://host1:4001'', level = ''strong''\<rparr>,
      mu = Free, closed = False, clusterManager = known_cluster\<rparr>"

text \<open>
  \<open>flapping_world\<close>: the node answers the first status request, refuses the one made at
  step 4, and from then on reports \<^verbatim>\<open>http://host2:4002\<close> as the leader.
\<close>

definition flapping_world :: world where
  "flapping_world =
     healthy_world
       \<lparr>http_get := (\<lambda>n url.
          if n < 4 then Inr (200, Inr cluster_status)
          else if n = 4 then Inl (External ''connection refused'')
          else Inr (200, Inr
            [(''cluster'', JObject [(''leader'', JString ''http://host2:4002''),
                                    (''peers'', JArray [JString ''http://host1:4001''])])]))\<rparr>"

text \<open>
  \<open>rejecting_world\<close>: the cluster is discovered and accepts connections, but every
  statement is refused. \<open>connected_conn\<close> and \<open>connected_trace\<close>: the connection
  \<^verbatim>\<open>NewConn\<close> returns there for \<open>sample_config\<close>, and the trace up to that point.
\<close>

definition rejecting_world :: world where
  "rejecting_world =
     healthy_world
       \<lparr>write_one := (\<lambda>n cl q vs. Inl (External ''leader not found'')),
        query_one := (\<lambda>n cl q vs. Inl (External ''leader not found''))\<rparr>"

definition connected_conn :: Conn where
  "connected_conn =
     \<lparr>cfg = sample_config, client = Some \<lparr>node = ''http://host1:4001'', level = ''strong''\<rparr>,
      mu = Free, closed = False,
      clusterManager =
        \<lparr>nodes = [''http://host1:4001'', ''http://host2:4002''], leader = ''http://host1:4001'',
         peers = [''http://host2:4002''], lastUpdate = start_time + 2 * Second,
         updateInterval = 30 * Second\<rparr>\<rparr>"

definition connected_trace :: trace where
  "connected_trace =
     [ClockRead, StatusRequest ''http://host1:4001'', ClockRead,
      OpenClient ''http://host1:4001'', SelectOne ''http://host1:4001'']"

section \<open>Strong-consistency routing\<close>

text \<open>
  C1. With an unknown leader \<^verbatim>\<open>SelectBestNode("strong")\<close> is claimed to return the empty
  address. The strong branch returns only when a leader is known; with an empty leader the
  call falls through to the weak/none policy. On a manager fresh from
  \<^verbatim>\<open>NewClusterManager\<close> (empty leader, no peers) it returns the first configured node.
\<close>

theorem SelectBestNode_strong_fresh_manager:
  "SelectBestNode (NewClusterManager [''http://host1:4001'', ''http://host2:4002'']) ''strong''
     = ''http://host1:4001''"
  by (simp add: SelectBestNode_def NewClusterManager_def)

section \<open>Parsing the connection string\<close>

lemma ParseDuration_45s: "ParseDuration ''45s'' = Some (45 * Second)"
  by (simp add: ParseDuration_def duration_groups.simps duration_number_def leadingInt_def
      is_digit_def digit_value_def unitMap_def unit_char_def Second_def)

lemma TrimSpace_host1: "TrimSpace ''host1:4001'' = ''host1:4001''"
  by (simp add: TrimSpace_def trim_leading.simps space_encodings_def HasPrefix_def)

lemma TrimSpace_host2: "TrimSpace ''host2:4002'' = ''host2:4002''"
  by (simp add: TrimSpace_def trim_leading.simps space_encodings_def HasPrefix_def)

text \<open>
  C8. Parsing \<^verbatim>\<open>user:pass@host1:4001,host2:4002?consistency=strong&timeout=45s\<close>
  succeeds with the two nodes under the \<^verbatim>\<open>http://\<close> scheme, user name \<^verbatim>\<open>user\<close>,
  password \<^verbatim>\<open>pass\<close>, consistency level \<^verbatim>\<open>strong\<close> and a timeout of 45 seconds.
\<close>

theorem ParseDSN_full_example:
  "ParseDSN ''user:pass@host1:4001,host2:4002?consistency=strong&timeout=45s'' =
     Inr \<lparr>Nodes = [''http://host1:4001'', ''http://host2:4002''],
           Username = ''user'', Password = ''pass'',
           Timeout = 45 * Second, ConsistencyLevel = ''strong''\<rparr>"
  by (simp add: ParseDSN_def dsn_auth_def dsn_params_def dsn_nodes_def TrimPrefix_def
      HasPrefix_def Contains_def Split.simps ParseDuration_45s TrimSpace_host1 TrimSpace_host2)

subsection \<open>Malformed parameter pairs\<close>
































section \<open>Row values\<close>

lemma signed_take_bit_63:
  fixes k :: int
  assumes "0 \<le> k" "k < 2 ^ 64"
  shows "signed_take_bit 63 k = (if k < 2 ^ 63 then k else k - 2 ^ 64)"
proof -
  have shift: "signed_take_bit 63 k = (k + 2 ^ 63) mod 2 ^ 64 - 2 ^ 63"
    using signed_take_bit_eq_take_bit_shift [of 63 k] by (simp add: take_bit_eq_mod)
  show ?thesis
  proof (cases "k < 2 ^ 63")
    case True
    with assms have "(k + 2 ^ 63) mod 2 ^ 64 = k + 2 ^ 63"
      by (intro mod_pos_pos_trivial) simp_all
    with True shift show ?thesis by simp
  next
    case False
    have "(k + 2 ^ 63) mod 2 ^ 64 = (k + 2 ^ 63 - 2 ^ 64) mod 2 ^ 64"
      by (simp only: minus_mod_self2)
    also from False assms have "\<dots> = k + 2 ^ 63 - 2 ^ 64"
      by (intro mod_pos_pos_trivial) simp_all
    finally show ?thesis using False shift by simp
  qed
qed

lemma sint_64:
  "sint (a :: 64 word) = (if uint a < 2 ^ 63 then uint a else uint a - 2 ^ 64)"
proof -
  have "uint a < 2 ^ LENGTH(64)" by (rule uint_lt2p)
  then have "uint a < 2 ^ 64" by simp
  moreover have "sint a = signed_take_bit 63 (uint a)"
    by (simp add: sint_uint)
  ultimately show ?thesis
    using signed_take_bit_63 [of "uint a"] by simp
qed

lemma uint_ucast_8: "uint (ucast (a :: 8 word) :: 64 word) = uint a"
  by (simp add: uint_up_ucast is_up)

lemma uint_ucast_16: "uint (ucast (a :: 16 word) :: 64 word) = uint a"
  by (simp add: uint_up_ucast is_up)

lemma uint_ucast_32: "uint (ucast (a :: 32 word) :: 64 word) = uint a"
  by (simp add: uint_up_ucast is_up)

lemma sint_ucast_8: "sint (ucast (a :: 8 word) :: 64 word) = uint a"
proof -
  have "uint a < 2 ^ LENGTH(8)" by (rule uint_lt2p)
  then have "uint a < 2 ^ 63" by simp
  then show ?thesis by (simp add: sint_64 uint_ucast_8)
qed

lemma sint_ucast_16: "sint (ucast (a :: 16 word) :: 64 word) = uint a"
proof -
  have "uint a < 2 ^ LENGTH(16)" by (rule uint_lt2p)
  then have "uint a < 2 ^ 63" by simp
  then show ?thesis by (simp add: sint_64 uint_ucast_16)
qed

lemma sint_ucast_32: "sint (ucast (a :: 32 word) :: 64 word) = uint a"
proof -
  have "uint a < 2 ^ LENGTH(32)" by (rule uint_lt2p)
  then have "uint a < 2 ^ 63" by simp
  then show ?thesis by (simp add: sint_64 uint_ucast_32)
qed

lemma sint_scast_8: "sint (scast (a :: 8 word) :: 64 word) = sint a"
  by (simp add: sint_up_scast is_up)

lemma sint_scast_16: "sint (scast (a :: 16 word) :: 64 word) = sint a"
  by (simp add: sint_up_scast is_up)

lemma sint_scast_32: "sint (scast (a :: 32 word) :: 64 word) = sint a"
  by (simp add: sint_up_scast is_up)


lemma sint_below: "sint (a :: 64 word) < 2 ^ 63"
  using sint_lt [of a] by simp

lemma sint_below_8: "sint (a :: 8 word) < 2 ^ 63"
proof -
  have "sint a < 2 ^ (LENGTH(8) - 1)" by (rule sint_lt)
  then show ?thesis by simp
qed

lemma sint_below_16: "sint (a :: 16 word) < 2 ^ 63"
proof -
  have "sint a < 2 ^ (LENGTH(16) - 1)" by (rule sint_lt)
  then show ?thesis by simp
qed

lemma sint_below_32: "sint (a :: 32 word) < 2 ^ 63"
proof -
  have "sint a < 2 ^ (LENGTH(32) - 1)" by (rule sint_lt)
  then show ?thesis by simp
qed

lemma uint_below_8: "uint (a :: 8 word) < 2 ^ 63"
proof -
  have "uint a < 2 ^ LENGTH(8)" by (rule uint_lt2p)
  then show ?thesis by simp
qed

lemma uint_below_16: "uint (a :: 16 word) < 2 ^ 63"
proof -
  have "uint a < 2 ^ LENGTH(16)" by (rule uint_lt2p)
  then show ?thesis by simp
qed

lemma uint_below_32: "uint (a :: 32 word) < 2 ^ 63"
proof -
  have "uint a < 2 ^ LENGTH(32)" by (rule uint_lt2p)
  then show ?thesis by simp
qed

lemma convertValue_integer:
  assumes "integer_value v = Some n"
  shows "\<exists>x. convertValue v = VInt64 x \<and> sint x = (if n < 2 ^ 63 then n else n - 2 ^ 64)"
proof (cases v)
  case (VInt a) with assms show ?thesis using sint_below [of a] by auto
next
  case (VInt8 a) with assms show ?thesis using sint_below_8 [of a] by (auto simp: sint_scast_8)
next
  case (VInt16 a) with assms show ?thesis using sint_below_16 [of a] by (auto simp: sint_scast_16)
next
  case (VInt32 a) with assms show ?thesis using sint_below_32 [of a] by (auto simp: sint_scast_32)
next
  case (VInt64 a) with assms show ?thesis using sint_below [of a] by auto
next
  case (VUint a) with assms show ?thesis using sint_64 [of a] by auto
next
  case (VUint8 a) with assms show ?thesis using uint_below_8 [of a] by (auto simp: sint_ucast_8)
next
  case (VUint16 a) with assms show ?thesis using uint_below_16 [of a] by (auto simp: sint_ucast_16)
next
  case (VUint32 a) with assms show ?thesis using uint_below_32 [of a] by (auto simp: sint_ucast_32)
next
  case (VUint64 a) with assms show ?thesis using sint_64 [of a] by auto
qed (use assms in auto)

lemma convertValue_IsValue: "IsValue (convertValue v)"
  by (cases v) auto

text \<open>
  What \<^verbatim>\<open>Rows.Next\<close> delivers when it returns nil: nil in every position. An error
  leaves \<^verbatim>\<open>dest\<close> as it was.
\<close>

lemma Next_delivers_only_nil:
  "case Next r dest of
     (None, r', dest') \<Rightarrow> dest' = replicate (length dest) VNil
   | (Some e, r', dest') \<Rightarrow> dest' = dest"
  by (simp add: Next_def Let_def split: option.splits prod.splits bool.splits)

lemma Next_null_rows:
  "Next null_rows [VString ''old'', VString ''old''] =
     (None,
      null_rows\<lparr>result := Some \<lparr>columns = [''name'', ''note''], rows = [[VNil, VNil]],
                                  rowNumber = 0\<rparr>\<rparr>,
      [VNil, VNil])"
  by (simp add: Next_def QueryResult_Next_def QueryResult_Scan_def null_rows_def Let_def)

text \<open>
  C10. Every cell is claimed to reach the caller normalized by \<^verbatim>\<open>convertValue\<close>, which
  does map every integer type to \<^verbatim>\<open>int64\<close> and \<^verbatim>\<open>float32\<close> to \<^verbatim>\<open>float64\<close>
  (\<open>convertValue_integer\<close> above). No cell other than NULL reaches it: on a row with a
  number and a text, \<^verbatim>\<open>Rows.Next\<close> returns the error of \<^verbatim>\<open>Scan\<close> for the first
  column and delivers nothing.
\<close>

theorem Next_fails_on_first_value:
  "Next sample_rows [VNil, VNil, VNil] =
     (Some (ScanUnknownDestination 0),
      sample_rows\<lparr>result := Some \<lparr>columns = [''id'', ''name'', ''note''],
                      rows = [[VFloat64 (Finite 7), VString ''alice'', VNil]],
                      rowNumber = 0\<rparr>\<rparr>,
      [VNil, VNil, VNil])"
  by (simp add: Next_def QueryResult_Next_def QueryResult_Scan_def sample_rows_def Let_def)

section \<open>Known nodes\<close>

lemma fold_update_keys:
  "fst ` set (fold (\<lambda>p m. AList.update p True m) ps m0) = fst ` set m0 \<union> set ps"
  by (induction ps arbitrary: m0) (auto simp: AList.dom_update)

lemma fold_update_distinct:
  "distinct (map fst m0) \<Longrightarrow> distinct (map fst (fold (\<lambda>p m. AList.update p True m) ps m0))"
  by (induction ps arbitrary: m0) (auto simp: AList.distinct_update)

lemma known_map_keys:
  "set (map fst (known_map cm)) = (if leader cm = [] then {} else {leader cm}) \<union> set (peers cm)"
  by (simp add: known_map_def fold_update_keys)

lemma known_map_distinct: "distinct (map fst (known_map cm))"
  by (simp add: known_map_def fold_update_distinct)

lemma known_map_nothing: "leader cm = [] \<Longrightarrow> peers cm = [] \<Longrightarrow> known_map cm = []"
  by (simp add: known_map_def)

text \<open>
  C7, as stated, fails: on a manager that knows nothing yet \<^verbatim>\<open>GetAllNodes\<close> returns the
  empty list, not the configured nodes.
\<close>

theorem GetAllNodes_nothing_known_counterexample:
  "GetAllNodes healthy_world (NewClusterManager [''http://host1:4001'', ''http://host2:4002'']) = []
   \<and> nodes (NewClusterManager [''http://host1:4001'', ''http://host2:4002'']) \<noteq> []"
  by (simp add: GetAllNodes_def known_map_def NewClusterManager_def healthy_world_def)

text \<open>
  C7, amended. Whatever order the runtime ranges over the map in, \<^verbatim>\<open>GetAllNodes\<close>
  returns the known leader and the known peers, each once. When nothing is known it returns
  the empty list, and it is the caller \<^verbatim>\<open>connectToAnyNode\<close> that then tries the
  configured nodes; otherwise the caller tries what \<^verbatim>\<open>GetAllNodes\<close> returned.
\<close>

theorem GetAllNodes_union:
  assumes "mset (map_order w (map fst (known_map (clusterManager c))))
             = mset (map fst (known_map (clusterManager c)))"
  shows "set (GetAllNodes w (clusterManager c))
           = (if leader (clusterManager c) = [] then {} else {leader (clusterManager c)})
               \<union> set (peers (clusterManager c))
         \<and> distinct (GetAllNodes w (clusterManager c))
         \<and> (if leader (clusterManager c) = [] \<and> peers (clusterManager c) = []
            then GetAllNodes w (clusterManager c) = [] \<and> any_node_candidates w c = Nodes (cfg c)
            else any_node_candidates w c = GetAllNodes w (clusterManager c))"
proof -
  let ?cm = "clusterManager c"
  let ?ks = "map fst (known_map ?cm)"
  have s: "set (GetAllNodes w ?cm) = set ?ks"
    using assms by (metis GetAllNodes_def set_mset_mset)
  have d: "distinct (GetAllNodes w ?cm)"
    using assms known_map_distinct [of ?cm] by (metis GetAllNodes_def mset_eq_imp_distinct_iff)
  show ?thesis
  proof (cases "leader ?cm = [] \<and> peers ?cm = []")
    case True
    then have "set (GetAllNodes w ?cm) = {}"
      using s known_map_keys [of ?cm] by simp
    then have "GetAllNodes w ?cm = []" by simp
    with True show ?thesis
      by (simp add: any_node_candidates_def)
  next
    case False
    then have "set (GetAllNodes w ?cm) \<noteq> {}"
      using s known_map_keys [of ?cm] by auto
    then have "length (GetAllNodes w ?cm) \<noteq> 0" by simp
    moreover have "set (GetAllNodes w ?cm)
        = (if leader ?cm = [] then {} else {leader ?cm}) \<union> set (peers ?cm)"
      using s known_map_keys [of ?cm] by simp
    ultimately show ?thesis
      using False d by (simp add: any_node_candidates_def Let_def)
  qed
qed


theorem GetAllNodes_union_witness:
  "set (GetAllNodes healthy_world (clusterManager known_conn))
     = (if leader (clusterManager known_conn) = [] then {}
        else {leader (clusterManager known_conn)}) \<union> set (peers (clusterManager known_conn))
   \<and> distinct (GetAllNodes healthy_world (clusterManager known_conn))
   \<and> (if leader (clusterManager known_conn) = [] \<and> peers (clusterManager known_conn) = []
      then GetAllNodes healthy_world (clusterManager known_conn) = []
           \<and> any_node_candidates healthy_world known_conn = Nodes (cfg known_conn)
      else any_node_candidates healthy_world known_conn
             = GetAllNodes healthy_world (clusterManager known_conn))"
  by (rule GetAllNodes_union) (simp add: healthy_world_def)

section \<open>The staleness throttle\<close>

lemma snd_queryNodeStatus: "snd (queryNodeStatus w tr nd) = tr @ [StatusRequest nd]"
  by (simp add: queryNodeStatus_def Let_def split: sum.splits prod.splits)

lemma DiscoverLeader_throttled_once:
  assumes "Sub (clock w (length tr)) (lastUpdate cm) < updateInterval cm"
  shows "DiscoverLeader w cm tr = (None, cm, tr @ [ClockRead])"
  using assms by (simp add: DiscoverLeader_def Since_def Now_def)

text \<open>
  C4, amended. Calls of \<^verbatim>\<open>DiscoverLeader\<close> that each find less than
  \<^verbatim>\<open>updateInterval\<close> elapsed since the stored \<^verbatim>\<open>lastUpdate\<close> all return nil, leave the
  manager as it was, and add nothing to the trace but their own reading of the clock: no
  status request is sent. The stored \<^verbatim>\<open>lastUpdate\<close> is the time of the last successful
  refresh unless a \<^verbatim>\<open>ForceRefresh\<close> has failed since, which leaves it at the zero time.
\<close>

theorem DiscoverLeader_throttle:
  assumes "\<forall>k<n. Sub (clock w (length tr + k)) (lastUpdate cm) < updateInterval cm"
  shows "DiscoverLeader_times w n cm tr = (replicate n None, cm, tr @ replicate n ClockRead)"
  using assms
proof (induction n arbitrary: tr)
  case 0
  then show ?case by simp
next
  case (Suc n)
  from Suc.prems have first: "Sub (clock w (length tr)) (lastUpdate cm) < updateInterval cm"
    by (metis add.right_neutral zero_less_Suc)
  have "\<forall>k<n. Sub (clock w (length (tr @ [ClockRead]) + k)) (lastUpdate cm) < updateInterval cm"
  proof (intro allI impI)
    fix k assume "k < n"
    then have "Suc k < Suc n" by simp
    with Suc.prems have "Sub (clock w (length tr + Suc k)) (lastUpdate cm) < updateInterval cm"
      by blast
    then show "Sub (clock w (length (tr @ [ClockRead]) + k)) (lastUpdate cm) < updateInterval cm"
      by simp
  qed
  from Suc.IH [OF this] DiscoverLeader_throttled_once [OF first]
  show ?case by (simp add: replicate_app_Cons_same)
qed

lemma DiscoverLeader_fresh_healthy:
  "DiscoverLeader healthy_world (NewClusterManager [''http://host1:4001'', ''http://host2:4002'']) []
     = (None,
        \<lparr>nodes = [''http://host1:4001'', ''http://host2:4002''], leader = ''http://host1:4001'',
         peers = [''http://host2:4002''], lastUpdate = start_time + 2 * Second,
         updateInterval = 30 * Second\<rparr>,
        [ClockRead, StatusRequest ''http://host1:4001'', ClockRead])"
  by (simp add: DiscoverLeader_def Since_def Now_def Sub_def NewClusterManager_def
      healthy_world_def queryNodeStatus_def extract_status_def as_object_def as_string_def
      as_array_def cluster_status_def start_time_def Second_def maxDuration_def minDuration_def)

theorem DiscoverLeader_throttle_witness:
  "DiscoverLeader_times healthy_world 3
     \<lparr>nodes = [''http://host1:4001'', ''http://host2:4002''], leader = ''http://host1:4001'',
      peers = [''http://host2:4002''], lastUpdate = start_time + 2 * Second,
      updateInterval = 30 * Second\<rparr>
     [ClockRead, StatusRequest ''http://host1:4001'', ClockRead]
   = (replicate 3 None,
      \<lparr>nodes = [''http://host1:4001'', ''http://host2:4002''], leader = ''http://host1:4001'',
       peers = [''http://host2:4002''], lastUpdate = start_time + 2 * Second,
       updateInterval = 30 * Second\<rparr>,
      [ClockRead, StatusRequest ''http://host1:4001'', ClockRead] @ replicate 3 ClockRead)"
proof (rule DiscoverLeader_throttle, intro allI impI)
  fix k :: nat assume "k < 3"
  then show "Sub (clock healthy_world
                (length [ClockRead, StatusRequest ''http://host1:4001'', ClockRead] + k))
              (lastUpdate \<lparr>nodes = [''http://host1:4001'', ''http://host2:4002''],
                 leader = ''http://host1:4001'', peers = [''http://host2:4002''],
                 lastUpdate = start_time + 2 * Second, updateInterval = 30 * Second\<rparr>)
            < updateInterval \<lparr>nodes = [''http://host1:4001'', ''http://host2:4002''],
                 leader = ''http://host1:4001'', peers = [''http://host2:4002''],
                 lastUpdate = start_time + 2 * Second, updateInterval = 30 * Second\<rparr>"
    by (simp add: healthy_world_def Sub_def Second_def maxDuration_def minDuration_def)
qed


text \<open>
  C4, as stated, fails: a refresh succeeds, a \<^verbatim>\<open>ForceRefresh\<close> then fails, and the
  \<^verbatim>\<open>DiscoverLeader\<close> called three seconds after the success is not throttled: it sends a
  status request and replaces leader, peers and \<^verbatim>\<open>lastUpdate\<close>.
\<close>

theorem DiscoverLeader_probes_soon_after_success:
  "DiscoverLeader flapping_world (NewClusterManager [''http://host1:4001'']) [] =
     (None,
      \<lparr>nodes = [''http://host1:4001''], leader = ''http://host1:4001'',
       peers = [''http://host2:4002''], lastUpdate = start_time + 2 * Second,
       updateInterval = 30 * Second\<rparr>,
      [ClockRead, StatusRequest ''http://host1:4001'', ClockRead])
   \<and> ForceRefresh flapping_world
       \<lparr>nodes = [''http://host1:4001''], leader = ''http://host1:4001'',
        peers = [''http://host2:4002''], lastUpdate = start_time + 2 * Second,
        updateInterval = 30 * Second\<rparr>
       [ClockRead, StatusRequest ''http://host1:4001'', ClockRead] =
     (Some (DiscoverFailed (Some (External ''connection refused''))),
      \<lparr>nodes = [''http://host1:4001''], leader = ''http://host1:4001'',
       peers = [''http://host2:4002''], lastUpdate = 0, updateInterval = 30 * Second\<rparr>,
      [ClockRead, StatusRequest ''http://host1:4001'', ClockRead,
       ClockRead, StatusRequest ''http://host1:4001''])
   \<and> clock flapping_world
       (length [ClockRead, StatusRequest ''http://host1:4001'', ClockRead,
                ClockRead, StatusRequest ''http://host1:4001''])
       - (start_time + 2 * Second) = 3 * Second
   \<and> DiscoverLeader flapping_world
       \<lparr>nodes = [''http://host1:4001''], leader = ''http://host1:4001'',
        peers = [''http://host2:4002''], lastUpdate = 0, updateInterval = 30 * Second\<rparr>
       [ClockRead, StatusRequest ''http://host1:4001'', ClockRead,
        ClockRead, StatusRequest ''http://host1:4001''] =
     (None,
      \<lparr>nodes = [''http://host1:4001''], leader = ''http://host2:4002'',
       peers = [''http://host1:4001''], lastUpdate = start_time + 7 * Second,
       updateInterval = 30 * Second\<rparr>,
      [ClockRead, StatusRequest ''http://host1:4001'', ClockRead,
       ClockRead, StatusRequest ''http://host1:4001'',
       ClockRead, StatusRequest ''http://host1:4001'', ClockRead])"
  by (simp add: ForceRefresh_def DiscoverLeader_def Since_def Now_def Sub_def
      NewClusterManager_def flapping_world_def healthy_world_def queryNodeStatus_def
      extract_status_def as_object_def as_string_def as_array_def cluster_status_def
      start_time_def Second_def maxDuration_def minDuration_def)

section \<open>Refreshing the view\<close>

lemma queryNodeStatus_trace: "queryNodeStatus w tr nd = (r, tr1) \<Longrightarrow> tr1 = tr @ [StatusRequest nd]"
  using snd_queryNodeStatus [of w tr nd] by simp

lemma discover_loop_outcome:
  "case discover_loop w ns lastErr cm tr of
     (None, cm', tr') \<Rightarrow>
       (\<exists>k<length ns. \<exists>ldr prs.
          (\<forall>j<k. isl (fst (queryNodeStatus w (tr @ map StatusRequest (take j ns)) (ns ! j)))) \<and>
          fst (queryNodeStatus w (tr @ map StatusRequest (take k ns)) (ns ! k)) = Inr (ldr, prs) \<and>
          cm' = cm\<lparr>leader := ldr, peers := prs, lastUpdate := clock w (length tr + Suc k)\<rparr> \<and>
          tr' = tr @ map StatusRequest (take (Suc k) ns) @ [ClockRead])
   | (Some e, cm', tr') \<Rightarrow>
       (\<forall>j<length ns. isl (fst (queryNodeStatus w (tr @ map StatusRequest (take j ns)) (ns ! j)))) \<and>
       (\<exists>e'. e = DiscoverFailed e') \<and> cm' = cm \<and> tr' = tr @ map StatusRequest ns"
proof (induction ns arbitrary: lastErr tr)
  case Nil
  then show ?case by simp
next
  case (Cons nd rest)
  obtain r tr1 where q: "queryNodeStatus w tr nd = (r, tr1)"
    by (cases "queryNodeStatus w tr nd") auto
  then have tr1: "tr1 = tr @ [StatusRequest nd]"
    by (rule queryNodeStatus_trace)
  show ?case
  proof (cases r)
    case (Inr a)
    obtain ldr prs where a: "a = (ldr, prs)" by (cases a) auto
    have "discover_loop w (nd # rest) lastErr cm tr =
            (None, cm\<lparr>leader := ldr, peers := prs, lastUpdate := clock w (length tr + Suc 0)\<rparr>,
             tr @ map StatusRequest (take (Suc 0) (nd # rest)) @ [ClockRead])"
      using q Inr a tr1 by (simp add: Now_def)
    moreover have "fst (queryNodeStatus w (tr @ map StatusRequest (take 0 (nd # rest))) ((nd # rest) ! 0))
                     = Inr (ldr, prs)"
      using q Inr a by simp
    ultimately show ?thesis
      by (auto intro!: exI [of _ 0])
  next
    case (Inl err)
    have step: "discover_loop w (nd # rest) lastErr cm tr = discover_loop w rest (Some err) cm tr1"
      using q Inl by simp
    have shift: "tr1 @ map StatusRequest (take j rest) = tr @ map StatusRequest (take (Suc j) (nd # rest))"
      for j by (simp add: tr1)
    have first: "isl (fst (queryNodeStatus w (tr @ map StatusRequest (take 0 (nd # rest))) ((nd # rest) ! 0)))"
      using q Inl by simp
    obtain res cm' tr' where res: "discover_loop w rest (Some err) cm tr1 = (res, cm', tr')"
      by (cases "discover_loop w rest (Some err) cm tr1") auto
    show ?thesis
    proof (cases res)
      case None
      with Cons.IH [where lastErr = "Some err" and tr = tr1] res obtain k ldr prs where k: "k < length rest"
        and fails: "\<forall>j<k. isl (fst (queryNodeStatus w (tr1 @ map StatusRequest (take j rest)) (rest ! j)))"
        and ok: "fst (queryNodeStatus w (tr1 @ map StatusRequest (take k rest)) (rest ! k)) = Inr (ldr, prs)"
        and cm': "cm' = cm\<lparr>leader := ldr, peers := prs, lastUpdate := clock w (length tr1 + Suc k)\<rparr>"
        and tr': "tr' = tr1 @ map StatusRequest (take (Suc k) rest) @ [ClockRead]"
        by auto
      have "\<forall>j<Suc k. isl (fst (queryNodeStatus w (tr @ map StatusRequest (take j (nd # rest)))
                                 ((nd # rest) ! j)))"
      proof (intro allI impI)
        fix j assume "j < Suc k"
        show "isl (fst (queryNodeStatus w (tr @ map StatusRequest (take j (nd # rest))) ((nd # rest) ! j)))"
        proof (cases j)
          case 0
          with first show ?thesis by simp
        next
          case (Suc j')
          with \<open>j < Suc k\<close> fails have
            "isl (fst (queryNodeStatus w (tr1 @ map StatusRequest (take j' rest)) (rest ! j')))"
            by simp
          with Suc show ?thesis by (simp add: tr1)
        qed
      qed
      moreover have "fst (queryNodeStatus w (tr @ map StatusRequest (take (Suc k) (nd # rest)))
                            ((nd # rest) ! Suc k)) = Inr (ldr, prs)"
        using ok by (simp add: tr1)
      moreover have "cm' = cm\<lparr>leader := ldr, peers := prs,
                              lastUpdate := clock w (length tr + Suc (Suc k))\<rparr>"
        using cm' by (simp add: tr1)
      moreover have "tr' = tr @ map StatusRequest (take (Suc (Suc k)) (nd # rest)) @ [ClockRead]"
        using tr' by (simp add: tr1)
      moreover have "Suc k < length (nd # rest)"
        using k by simp
      ultimately have "\<exists>k<length (nd # rest). \<exists>ldr prs.
          (\<forall>j<k. isl (fst (queryNodeStatus w (tr @ map StatusRequest (take j (nd # rest)))
                                ((nd # rest) ! j)))) \<and>
          fst (queryNodeStatus w (tr @ map StatusRequest (take k (nd # rest))) ((nd # rest) ! k))
            = Inr (ldr, prs) \<and>
          cm' = cm\<lparr>leader := ldr, peers := prs, lastUpdate := clock w (length tr + Suc k)\<rparr> \<and>
          tr' = tr @ map StatusRequest (take (Suc k) (nd # rest)) @ [ClockRead]"
        by blast
      with step res None show ?thesis by simp
    next
      case (Some e)
      with Cons.IH [where lastErr = "Some err" and tr = tr1] res have
        fails: "\<forall>j<length rest. isl (fst (queryNodeStatus w (tr1 @ map StatusRequest (take j rest)) (rest ! j)))"
        and e: "\<exists>e'. e = DiscoverFailed e'" and cm': "cm' = cm"
        and tr': "tr' = tr1 @ map StatusRequest rest"
        by auto
      have "\<forall>j<length (nd # rest). isl (fst (queryNodeStatus w (tr @ map StatusRequest (take j (nd # rest)))
                                 ((nd # rest) ! j)))"
      proof (intro allI impI)
        fix j assume "j < length (nd # rest)"
        show "isl (fst (queryNodeStatus w (tr @ map StatusRequest (take j (nd # rest))) ((nd # rest) ! j)))"
        proof (cases j)
          case 0
          with first show ?thesis by simp
        next
          case (Suc j')
          with \<open>j < length (nd # rest)\<close> fails have
            "isl (fst (queryNodeStatus w (tr1 @ map StatusRequest (take j' rest)) (rest ! j')))"
            by simp
          with Suc show ?thesis by (simp add: tr1)
        qed
      qed
      moreover have "tr' = tr @ map StatusRequest (nd # rest)"
        using tr' by (simp add: tr1)
      ultimately show ?thesis
        using step res Some e cm' by simp
    qed
  qed
qed


lemma DiscoverLeader_due:
  assumes "\<not> Sub (clock w (length tr)) (lastUpdate cm) < updateInterval cm"
  shows "DiscoverLeader w cm tr = discover_loop w (nodes cm) None cm (tr @ [ClockRead])"
  using assms by (simp add: DiscoverLeader_def Since_def Now_def)

lemma discover_loop_all_fail:
  assumes "\<forall>nd\<in>set ns. \<forall>tr'. isl (fst (queryNodeStatus w tr' nd))"
  shows "\<exists>e. discover_loop w ns lastErr cm tr = (Some (DiscoverFailed e), cm, tr @ map StatusRequest ns)"
proof -
  obtain res cm' tr' where res: "discover_loop w ns lastErr cm tr = (res, cm', tr')"
    by (cases "discover_loop w ns lastErr cm tr") auto
  show ?thesis
  proof (cases res)
    case None
    with res discover_loop_outcome [where w = w and ns = ns and lastErr = lastErr and cm = cm and tr = tr] obtain k ldr prs where "k < length ns"
      and "fst (queryNodeStatus w (tr @ map StatusRequest (take k ns)) (ns ! k)) = Inr (ldr, prs)"
      by auto
    moreover from \<open>k < length ns\<close> assms
    have "isl (fst (queryNodeStatus w (tr @ map StatusRequest (take k ns)) (ns ! k)))"
      by simp
    ultimately show ?thesis by simp
  next
    case (Some e)
    with res discover_loop_outcome [where w = w and ns = ns and lastErr = lastErr and cm = cm and tr = tr] show ?thesis
      by auto
  qed
qed

text \<open>
  C5, amended. When every status request to a configured node fails, a refresh that is not
  throttled returns the error wrapping the last failure, after one request to each
  configured node in order. \<^verbatim>\<open>DiscoverLeader\<close> leaves leader, peers and
  \<^verbatim>\<open>lastUpdate\<close> as they were; \<^verbatim>\<open>ForceRefresh\<close> leaves leader and peers as they were and
  \<^verbatim>\<open>lastUpdate\<close> at the zero time it was reset to.
\<close>

theorem refresh_all_probes_fail:
  assumes "\<forall>nd\<in>set (nodes cm). \<forall>tr'. isl (fst (queryNodeStatus w tr' nd))"
  shows "(\<not> Sub (clock w (length tr)) (lastUpdate cm) < updateInterval cm \<longrightarrow>
            (\<exists>e. DiscoverLeader w cm tr =
                    (Some (DiscoverFailed e), cm, tr @ ClockRead # map StatusRequest (nodes cm))))
       \<and> (\<not> Sub (clock w (length tr)) 0 < updateInterval cm \<longrightarrow>
            (\<exists>e. ForceRefresh w cm tr =
                    (Some (DiscoverFailed e), cm\<lparr>lastUpdate := 0\<rparr>,
                     tr @ ClockRead # map StatusRequest (nodes cm))))"
proof (intro conjI impI)
  assume due: "\<not> Sub (clock w (length tr)) (lastUpdate cm) < updateInterval cm"
  from discover_loop_all_fail [OF assms, where lastErr = None and cm = cm and tr = "tr @ [ClockRead]"]
  show "\<exists>e. DiscoverLeader w cm tr =
               (Some (DiscoverFailed e), cm, tr @ ClockRead # map StatusRequest (nodes cm))"
    by (simp add: DiscoverLeader_due [OF due])
next
  assume due: "\<not> Sub (clock w (length tr)) 0 < updateInterval cm"
  let ?cm = "cm\<lparr>lastUpdate := 0\<rparr>"
  have fails: "\<forall>nd\<in>set (nodes ?cm). \<forall>tr'. isl (fst (queryNodeStatus w tr' nd))"
    using assms by simp
  have due': "\<not> Sub (clock w (length tr)) (lastUpdate ?cm) < updateInterval ?cm"
    using due by simp
  from discover_loop_all_fail [OF fails, where lastErr = None and cm = ?cm and tr = "tr @ [ClockRead]"]
  show "\<exists>e. ForceRefresh w cm tr =
               (Some (DiscoverFailed e), cm\<lparr>lastUpdate := 0\<rparr>,
                tr @ ClockRead # map StatusRequest (nodes cm))"
    unfolding ForceRefresh_def by (simp add: DiscoverLeader_due [OF due'])
qed

lemma silent_world_fails: "isl (fst (queryNodeStatus silent_world tr' nd))"
  by (simp add: queryNodeStatus_def silent_world_def healthy_world_def)

lemma known_cluster_due:
  "\<not> Sub (clock silent_world (length ([] :: trace))) (lastUpdate known_cluster) < updateInterval known_cluster"
  by (simp add: silent_world_def healthy_world_def known_cluster_def Sub_def start_time_def
      Second_def maxDuration_def minDuration_def)

lemma zero_time_due:
  "\<not> Sub (clock silent_world (length ([] :: trace))) 0 < updateInterval known_cluster"
  by (simp add: silent_world_def healthy_world_def known_cluster_def Sub_def start_time_def
      Second_def maxDuration_def minDuration_def)

theorem refresh_all_probes_fail_witness:
  "(\<exists>e. DiscoverLeader silent_world known_cluster [] =
           (Some (DiscoverFailed e), known_cluster,
            [] @ ClockRead # map StatusRequest (nodes known_cluster)))
   \<and> (\<exists>e. ForceRefresh silent_world known_cluster [] =
           (Some (DiscoverFailed e), known_cluster\<lparr>lastUpdate := 0\<rparr>,
            [] @ ClockRead # map StatusRequest (nodes known_cluster)))"
  using refresh_all_probes_fail [where cm = known_cluster and w = silent_world and tr = "[]"]
    silent_world_fails known_cluster_due zero_time_due
  by blast

text \<open>
  C5, as stated, fails for the forced refresh: after a \<^verbatim>\<open>ForceRefresh\<close> in which every
  probe fails, \<^verbatim>\<open>lastUpdate\<close> is the zero time, not the time held before the call.
\<close>

theorem ForceRefresh_failure_resets_lastUpdate:
  "ForceRefresh silent_world known_cluster [] =
     (Some (DiscoverFailed (Some (External ''connection refused''))),
      known_cluster\<lparr>lastUpdate := 0\<rparr>,
      [ClockRead, StatusRequest ''http://host1:4001'', StatusRequest ''http://host2:4002''])
   \<and> lastUpdate (known_cluster\<lparr>lastUpdate := 0\<rparr>) \<noteq> lastUpdate known_cluster"
  by (simp add: ForceRefresh_def DiscoverLeader_def Since_def Now_def Sub_def
      silent_world_def healthy_world_def known_cluster_def queryNodeStatus_def
      start_time_def Second_def maxDuration_def minDuration_def)

text \<open>
  C6, amended. A refresh that is not throttled sends its status requests to the configured
  nodes in their order, whether or not a leader is known, and stops at the first node that
  answers. The leader and the peers of that one answer are installed together, with the
  time read right after it. When no node answers, each configured node has been asked once
  and the manager is unchanged.
\<close>

theorem DiscoverLeader_probes_nodes_in_order:
  assumes "\<not> Sub (clock w (length tr)) (lastUpdate cm) < updateInterval cm"
  shows "case DiscoverLeader w cm tr of
           (None, cm', tr') \<Rightarrow>
             (\<exists>k<length (nodes cm). \<exists>ldr prs.
                (\<forall>j<k. isl (fst (queryNodeStatus w
                    (tr @ ClockRead # map StatusRequest (take j (nodes cm))) (nodes cm ! j)))) \<and>
                fst (queryNodeStatus w
                    (tr @ ClockRead # map StatusRequest (take k (nodes cm))) (nodes cm ! k))
                  = Inr (ldr, prs) \<and>
                cm' = cm\<lparr>leader := ldr, peers := prs,
                         lastUpdate := clock w (length tr + Suc (Suc k))\<rparr> \<and>
                tr' = tr @ ClockRead # map StatusRequest (take (Suc k) (nodes cm)) @ [ClockRead])
         | (Some e, cm', tr') \<Rightarrow>
             (\<forall>j<length (nodes cm). isl (fst (queryNodeStatus w
                    (tr @ ClockRead # map StatusRequest (take j (nodes cm))) (nodes cm ! j)))) \<and>
             (\<exists>e'. e = DiscoverFailed e') \<and> cm' = cm \<and>
             tr' = tr @ ClockRead # map StatusRequest (nodes cm)"
proof -
  let ?tr = "tr @ [ClockRead]"
  have run: "DiscoverLeader w cm tr = discover_loop w (nodes cm) None cm ?tr"
    by (rule DiscoverLeader_due [OF assms])
  obtain res cm' tr' where res: "discover_loop w (nodes cm) None cm ?tr = (res, cm', tr')"
    by (cases "discover_loop w (nodes cm) None cm ?tr") auto
  show ?thesis
  proof (cases res)
    case None
    with res discover_loop_outcome
      [where w = w and ns = "nodes cm" and lastErr = None and cm = cm and tr = ?tr]
    show ?thesis by (simp add: run)
  next
    case (Some e)
    with res discover_loop_outcome
      [where w = w and ns = "nodes cm" and lastErr = None and cm = cm and tr = ?tr]
    show ?thesis by (simp add: run)
  qed
qed

lemma fresh_manager_due:
  "\<not> Sub (clock healthy_world (length ([] :: trace)))
        (lastUpdate (NewClusterManager [''http://host1:4001'', ''http://host2:4002'']))
      < updateInterval (NewClusterManager [''http://host1:4001'', ''http://host2:4002''])"
  by (simp add: healthy_world_def NewClusterManager_def Sub_def start_time_def
      Second_def maxDuration_def minDuration_def)

theorem DiscoverLeader_probes_nodes_in_order_witness:
  "DiscoverLeader healthy_world (NewClusterManager [''http://host1:4001'', ''http://host2:4002'']) []
     = (None,
        \<lparr>nodes = [''http://host1:4001'', ''http://host2:4002''], leader = ''http://host1:4001'',
         peers = [''http://host2:4002''], lastUpdate = start_time + 2 * Second,
         updateInterval = 30 * Second\<rparr>,
        [ClockRead, StatusRequest ''http://host1:4001'', ClockRead])
   \<and> (case DiscoverLeader healthy_world
             (NewClusterManager [''http://host1:4001'', ''http://host2:4002'']) [] of
        (None, cm', tr') \<Rightarrow>
          (\<exists>k<length (nodes (NewClusterManager [''http://host1:4001'', ''http://host2:4002''])).
           \<exists>ldr prs.
             (\<forall>j<k. isl (fst (queryNodeStatus healthy_world
                 ([] @ ClockRead # map StatusRequest
                    (take j (nodes (NewClusterManager [''http://host1:4001'', ''http://host2:4002'']))))
                 (nodes (NewClusterManager [''http://host1:4001'', ''http://host2:4002'']) ! j)))) \<and>
             fst (queryNodeStatus healthy_world
                 ([] @ ClockRead # map StatusRequest
                    (take k (nodes (NewClusterManager [''http://host1:4001'', ''http://host2:4002'']))))
                 (nodes (NewClusterManager [''http://host1:4001'', ''http://host2:4002'']) ! k))
               = Inr (ldr, prs) \<and>
             cm' = (NewClusterManager [''http://host1:4001'', ''http://host2:4002''])
                     \<lparr>leader := ldr, peers := prs,
                      lastUpdate := clock healthy_world (length ([] :: trace) + Suc (Suc k))\<rparr> \<and>
             tr' = [] @ ClockRead # map StatusRequest
                     (take (Suc k)
                        (nodes (NewClusterManager [''http://host1:4001'', ''http://host2:4002''])))
                     @ [ClockRead])
      | (Some e, cm', tr') \<Rightarrow>
          (\<forall>j<length (nodes (NewClusterManager [''http://host1:4001'', ''http://host2:4002''])).
             isl (fst (queryNodeStatus healthy_world
                 ([] @ ClockRead # map StatusRequest
                    (take j (nodes (NewClusterManager [''http://host1:4001'', ''http://host2:4002'']))))
                 (nodes (NewClusterManager [''http://host1:4001'', ''http://host2:4002'']) ! j)))) \<and>
          (\<exists>e'. e = DiscoverFailed e') \<and>
          cm' = NewClusterManager [''http://host1:4001'', ''http://host2:4002''] \<and>
          tr' = [] @ ClockRead # map StatusRequest
                  (nodes (NewClusterManager [''http://host1:4001'', ''http://host2:4002''])))"
proof (rule conjI)
  show "DiscoverLeader healthy_world
          (NewClusterManager [''http://host1:4001'', ''http://host2:4002'']) []
     = (None,
        \<lparr>nodes = [''http://host1:4001'', ''http://host2:4002''], leader = ''http://host1:4001'',
         peers = [''http://host2:4002''], lastUpdate = start_time + 2 * Second,
         updateInterval = 30 * Second\<rparr>,
        [ClockRead, StatusRequest ''http://host1:4001'', ClockRead])"
    by (rule DiscoverLeader_fresh_healthy)
qed (rule DiscoverLeader_probes_nodes_in_order [OF fresh_manager_due])

lemma DiscoverLeader_relocated_first:
  "DiscoverLeader relocated_world (NewClusterManager [''http://host1:4001'']) []
     = (None,
        \<lparr>nodes = [''http://host1:4001''], leader = ''http://host9:4001'',
         peers = [''http://host1:4001''], lastUpdate = start_time + 120 * Second,
         updateInterval = 30 * Second\<rparr>,
        [ClockRead, StatusRequest ''http://host1:4001'', ClockRead])"
  by (simp add: DiscoverLeader_def Since_def Now_def Sub_def NewClusterManager_def
      relocated_world_def healthy_world_def queryNodeStatus_def extract_status_def as_object_def
      as_string_def as_array_def start_time_def Second_def maxDuration_def minDuration_def)

text \<open>
  C6, as stated, fails: a manager that knows the leader \<^verbatim>\<open>http://host9:4001\<close> sends its
  next status request to the configured node \<^verbatim>\<open>http://host1:4001\<close>, and none to the
  leader.
\<close>

theorem DiscoverLeader_ignores_known_leader:
  "DiscoverLeader relocated_world
     \<lparr>nodes = [''http://host1:4001''], leader = ''http://host9:4001'',
      peers = [''http://host1:4001''], lastUpdate = start_time + 120 * Second,
      updateInterval = 30 * Second\<rparr>
     [ClockRead, StatusRequest ''http://host1:4001'', ClockRead]
   = (None,
      \<lparr>nodes = [''http://host1:4001''], leader = ''http://host9:4001'',
       peers = [''http://host1:4001''], lastUpdate = start_time + 300 * Second,
       updateInterval = 30 * Second\<rparr>,
      [ClockRead, StatusRequest ''http://host1:4001'', ClockRead,
       ClockRead, StatusRequest ''http://host1:4001'', ClockRead])"
  by (simp add: DiscoverLeader_def Since_def Now_def Sub_def
      relocated_world_def healthy_world_def queryNodeStatus_def extract_status_def as_object_def
      as_string_def as_array_def start_time_def Second_def maxDuration_def minDuration_def)


section \<open>Retrying a failed statement\<close>

lemma connect_held: "mu c = Exclusive \<Longrightarrow> connect w c tr = Blocks c tr"
  by (simp add: connect_def Lock_def)

lemma reconnect_held:
  "mu c = Exclusive \<Longrightarrow> client c = Some k \<Longrightarrow>
   reconnect w c tr = Blocks (c\<lparr>client := None\<rparr>) (tr @ [CloseClient (node k)])"
  by (simp add: reconnect_def connect_held)

lemma exec_loop_first_failure:
  assumes "mu c = Free" "write_one w (length tr) k query vals = Inl err"
    "client c = Some k"
  shows "exec_loop w query vals 0 (Some k) c tr =
           Blocks (c\<lparr>mu := Exclusive, client := None\<rparr>)
             (tr @ [WriteOne (node k) query, CloseClient (node k)])"
  using assms by (subst exec_loop.simps) (simp add: Lock_def reconnect_held)

lemma query_loop_first_failure:
  assumes "mu c = Free" "query_one w (length tr) k query vals = Inl err"
    "client c = Some k"
  shows "query_loop w query vals 0 (Some k) c tr =
           Blocks (c\<lparr>mu := Exclusive, client := None\<rparr>)
             (tr @ [QueryOne (node k) query, CloseClient (node k)])"
  using assms by (subst query_loop.simps) (simp add: Lock_def reconnect_held)

lemma ExecContext_first_failure:
  assumes "mu c = Free" and "client c = Some k"
    and "write_one w (length tr) k query (map Value args) = Inl err"
  shows "ExecContext w c tr query args =
           Blocks (c\<lparr>mu := Exclusive, client := None\<rparr>)
             (tr @ [WriteOne (node k) query, CloseClient (node k)])"
proof -
  have same: "c\<lparr>mu := Free\<rparr> = c"
    using assms(1) by simp
  from exec_loop_first_failure [OF assms(1) assms(3) assms(2)] show ?thesis
    using assms(1,2) by (simp add: ExecContext_def RLock_def RUnlock_def same)
qed

lemma QueryContext_first_failure:
  assumes "mu c = Free" and "client c = Some k"
    and "query_one w (length tr) k query (map Value args) = Inl err"
  shows "QueryContext w c tr query args =
           Blocks (c\<lparr>mu := Exclusive, client := None\<rparr>)
             (tr @ [QueryOne (node k) query, CloseClient (node k)])"
proof -
  have same: "c\<lparr>mu := Free\<rparr> = c"
    using assms(1) by simp
  from query_loop_first_failure [OF assms(1) assms(3) assms(2)] show ?thesis
    using assms(1,2) by (simp add: QueryContext_def RLock_def RUnlock_def same)
qed

text \<open>
  C3. The claim has a failed attempt followed by a forced refresh, a reconnect and a retry,
  or by the reconnect's error. In the code a failed attempt is followed by nothing:
  \<^verbatim>\<open>ExecContext\<close> and \<^verbatim>\<open>QueryContext\<close> take the connection's mutex and call
  \<^verbatim>\<open>reconnect\<close>, which closes the client and calls \<^verbatim>\<open>connect\<close>, whose first statement
  takes the same mutex again. On any connection with a live client, the first failure
  leaves the call waiting for ever, after one attempt and with the client closed.
\<close>

theorem execute_first_failure_blocks:
  assumes "mu c = Free" and "client c = Some k"
  shows "(write_one w (length tr) k query (map Value args) = Inl err \<longrightarrow>
            ExecContext w c tr query args =
              Blocks (c\<lparr>mu := Exclusive, client := None\<rparr>)
                (tr @ [WriteOne (node k) query, CloseClient (node k)]))
       \<and> (query_one w (length tr) k query (map Value args) = Inl err \<longrightarrow>
            QueryContext w c tr query args =
              Blocks (c\<lparr>mu := Exclusive, client := None\<rparr>)
                (tr @ [QueryOne (node k) query, CloseClient (node k)]))"
  using ExecContext_first_failure [OF assms] QueryContext_first_failure [OF assms]
  by blast

lemma known_conn_free: "mu known_conn = Free"
  by (simp add: known_conn_def)

lemma known_conn_client:
  "client known_conn = Some \<lparr>node = ''http://host1:4001'', level = ''strong''\<rparr>"
  by (simp add: known_conn_def)

theorem execute_first_failure_blocks_witness:
  "ExecContext rejecting_world known_conn [] ''INSERT INTO t VALUES (1)'' [] =
     Blocks (known_conn\<lparr>mu := Exclusive, client := None\<rparr>)
       ([] @ [WriteOne (node \<lparr>node = ''http://host1:4001'', level = ''strong''\<rparr>)
                ''INSERT INTO t VALUES (1)'',
              CloseClient (node \<lparr>node = ''http://host1:4001'', level = ''strong''\<rparr>)])
   \<and> QueryContext rejecting_world known_conn [] ''INSERT INTO t VALUES (1)'' [] =
     Blocks (known_conn\<lparr>mu := Exclusive, client := None\<rparr>)
       ([] @ [QueryOne (node \<lparr>node = ''http://host1:4001'', level = ''strong''\<rparr>)
                ''INSERT INTO t VALUES (1)'',
              CloseClient (node \<lparr>node = ''http://host1:4001'', level = ''strong''\<rparr>)])"
  using execute_first_failure_blocks [OF known_conn_free known_conn_client,
      where w = rejecting_world and tr = "[]" and query = "''INSERT INTO t VALUES (1)''"
        and args = "[]" and err = "External ''leader not found''"]
  by (simp add: rejecting_world_def healthy_world_def)

lemma NewConn_rejecting:
  "NewConn rejecting_world sample_config [] = Returns None connected_conn connected_trace"
  by (simp add: NewConn_def connect_def connect_locked_def Lock_def Unlock_def Let_def
      DiscoverLeader_def Since_def Now_def Sub_def NewClusterManager_def SelectBestNode_def
      createClient_def rejecting_world_def healthy_world_def queryNodeStatus_def
      extract_status_def as_object_def as_string_def as_array_def cluster_status_def
      sample_config_def connected_conn_def connected_trace_def
      start_time_def Second_def maxDuration_def minDuration_def)

text \<open>
  C2. Three failed attempts are claimed to end in an error that wraps the last failure. On
  the connection \<^verbatim>\<open>NewConn\<close> returns in a cluster that refuses every statement, a write and
  a read each make one attempt, close the client and then wait for ever for the mutex they
  hold: nothing is returned.
\<close>

theorem failed_statement_never_returns:
  "NewConn rejecting_world sample_config [] = Returns None connected_conn connected_trace
   \<and> ExecContext rejecting_world connected_conn connected_trace
         ''UPDATE t SET x = 1'' [] =
       Blocks (connected_conn\<lparr>mu := Exclusive, client := None\<rparr>)
         (connected_trace @
            [WriteOne ''http://host1:4001'' ''UPDATE t SET x = 1'',
             CloseClient ''http://host1:4001''])
   \<and> QueryContext rejecting_world connected_conn connected_trace
         ''SELECT x FROM t'' [] =
       Blocks (connected_conn\<lparr>mu := Exclusive, client := None\<rparr>)
         (connected_trace @
            [QueryOne ''http://host1:4001'' ''SELECT x FROM t'',
             CloseClient ''http://host1:4001''])"
proof (intro conjI)
  show "NewConn rejecting_world sample_config [] = Returns None connected_conn connected_trace"
    by (rule NewConn_rejecting)
  have free: "mu connected_conn = Free"
    and cl: "client connected_conn = Some \<lparr>node = ''http://host1:4001'', level = ''strong''\<rparr>"
    by (simp_all add: connected_conn_def)
  have w: "write_one rejecting_world (length connected_trace)
             \<lparr>node = ''http://host1:4001'', level = ''strong''\<rparr> ''UPDATE t SET x = 1'' []
           = Inl (External ''leader not found'')"
    and q: "query_one rejecting_world (length connected_trace)
             \<lparr>node = ''http://host1:4001'', level = ''strong''\<rparr> ''SELECT x FROM t'' []
           = Inl (External ''leader not found'')"
    by (simp_all add: rejecting_world_def healthy_world_def)
  from ExecContext_first_failure [OF free cl, where args = "[]", simplified, OF w]
  show "ExecContext rejecting_world connected_conn connected_trace ''UPDATE t SET x = 1'' [] =
       Blocks (connected_conn\<lparr>mu := Exclusive, client := None\<rparr>)
         (connected_trace @
            [WriteOne ''http://host1:4001'' ''UPDATE t SET x = 1'',
             CloseClient ''http://host1:4001''])"
    by simp
  from QueryContext_first_failure [OF free cl, where args = "[]", simplified, OF q]
  show "QueryContext rejecting_world connected_conn connected_trace ''SELECT x FROM t'' [] =
       Blocks (connected_conn\<lparr>mu := Exclusive, client := None\<rparr>)
         (connected_trace @
            [QueryOne ''http://host1:4001'' ''SELECT x FROM t'',
             CloseClient ''http://host1:4001''])"
    by simp
qed


end
